theory Spec2Isabelle
  imports Complex_Main "HOL-Library.Multiset"
begin

section \<open>Python values\<close>

text \<open>
  The program (\<^verbatim>\<open>app.py\<close>) handles JSON-like values that come back from the Google Maps
  client and from the function-call arguments of the language model. They are modelled
  by one datatype. An \<^verbatim>\<open>int\<close> is an integer and a \<^verbatim>\<open>float\<close> a real: the code only compares
  numbers and never does arithmetic on them, and Python compares the two by value. A
  dictionary is an association list in insertion order; lookup takes the first entry of
  a key.
\<close>

datatype pyval =
    PNone
  | PBool bool
  | PInt int
  | PFloat real
  | PStr string
  | PList "pyval list"
  | PDict "(string \<times> pyval) list"

type_synonym dict = "(string \<times> pyval) list"

text \<open>
  The exceptions that occur. All of them are subclasses of \<^verbatim>\<open>Exception\<close>, so an
  \<^verbatim>\<open>except Exception\<close> clause catches each of them. \<open>ServiceError\<close> stands for whatever
  an external client raises (transport, quota, authentication).
\<close>

datatype exn =
    KeyError string
  | TypeError
  | AttributeError
  | IndexError
  | ValidationError
  | ServiceError string

definition ebind :: "exn + 'a \<Rightarrow> ('a \<Rightarrow> exn + 'b) \<Rightarrow> exn + 'b" where
  "ebind m f = (case m of Inl e \<Rightarrow> Inl e | Inr x \<Rightarrow> f x)"

text \<open>Truth value of an object, as \<^verbatim>\<open>not x\<close> and \<^verbatim>\<open>if x\<close> test it.\<close>

fun truthy :: "pyval \<Rightarrow> bool" where
  "truthy PNone = False"
| "truthy (PBool b) = b"
| "truthy (PInt n) = (n \<noteq> 0)"
| "truthy (PFloat r) = (r \<noteq> 0)"
| "truthy (PStr s) = (s \<noteq> [])"
| "truthy (PList xs) = (xs \<noteq> [])"
| "truthy (PDict kvs) = (kvs \<noteq> [])"

text \<open>\<^verbatim>\<open>d[k]\<close> on a dictionary object: \<^verbatim>\<open>KeyError\<close> when the key is missing.\<close>

definition getitem :: "dict \<Rightarrow> string \<Rightarrow> exn + pyval" where
  "getitem d k = (case map_of d k of None \<Rightarrow> Inl (KeyError k) | Some v \<Rightarrow> Inr v)"

text \<open>
  \<^verbatim>\<open>d[k] = v\<close>: an existing key keeps its position, a new key is appended.
\<close>

fun setitem :: "dict \<Rightarrow> string \<Rightarrow> pyval \<Rightarrow> dict" where
  "setitem [] k v = [(k, v)]"
| "setitem ((k', v') # d) k v = (if k' = k then (k, v) # d else (k', v') # setitem d k v)"

definition has_key :: "dict \<Rightarrow> string \<Rightarrow> bool" where
  "has_key d k = (map_of d k \<noteq> None)"

text \<open>
  \<^verbatim>\<open>x.get(k, default)\<close> on any value: only a dictionary has the method, every other value
  raises \<^verbatim>\<open>AttributeError\<close>.
\<close>

fun py_get :: "pyval \<Rightarrow> string \<Rightarrow> pyval \<Rightarrow> exn + pyval" where
  "py_get (PDict kvs) k dflt = Inr (case map_of kvs k of None \<Rightarrow> dflt | Some v \<Rightarrow> v)"
| "py_get _ k dflt = Inl AttributeError"

text \<open>\<^verbatim>\<open>x[k]\<close> with a string key \<open>k\<close> on any value.\<close>

fun py_item :: "pyval \<Rightarrow> string \<Rightarrow> exn + pyval" where
  "py_item (PDict kvs) k = getitem kvs k"
| "py_item _ k = Inl TypeError"

text \<open>
  \<^verbatim>\<open>x[0]\<close> on any value. The keys of a JSON dictionary are strings, so the key \<open>0\<close> is
  never found in one.
\<close>

fun py_index0 :: "pyval \<Rightarrow> exn + pyval" where
  "py_index0 (PList []) = Inl IndexError"
| "py_index0 (PList (x # xs)) = Inr x"
| "py_index0 (PStr []) = Inl IndexError"
| "py_index0 (PStr (c # cs)) = Inr (PStr [c])"
| "py_index0 (PDict kvs) = Inl (KeyError ''0'')"
| "py_index0 _ = Inl TypeError"

text \<open>Iteration (\<^verbatim>\<open>for x in v\<close>): a dictionary yields its keys, a string its characters.\<close>

fun py_iter :: "pyval \<Rightarrow> exn + pyval list" where
  "py_iter (PList xs) = Inr xs"
| "py_iter (PStr s) = Inr (map (\<lambda>c. PStr [c]) s)"
| "py_iter (PDict kvs) = Inr (map (\<lambda>kv. PStr (fst kv)) kvs)"
| "py_iter _ = Inl TypeError"

text \<open>
  The number an ordering comparison (\<^verbatim>\<open>>=\<close>, \<^verbatim>\<open><=\<close>, \<^verbatim>\<open>>\<close> against a number) reads from
  a value. \<^verbatim>\<open>bool\<close> is a subclass of \<^verbatim>\<open>int\<close>; every other non-number raises \<^verbatim>\<open>TypeError\<close>.
\<close>

fun num_of :: "pyval \<Rightarrow> exn + real" where
  "num_of (PInt n) = Inr (of_int n)"
| "num_of (PFloat r) = Inr r"
| "num_of (PBool b) = Inr (if b then 1 else 0)"
| "num_of _ = Inl TypeError"

section \<open>Observable effects\<close>

text \<open>
  An f-string is a list of fragments: literal text and the formatted values. The emoji
  that open some of the program's messages are left out of the literal text.
\<close>

datatype frag = T string | V pyval | N nat | I int | E exn

record summary =
  s_name :: pyval
  s_url :: pyval
  s_rating :: pyval
  s_review_count :: pyval
  s_vibe_adjectives :: pyval
  s_unique_features :: pyval
  s_vibe_justification :: pyval

text \<open>
  The two prompts, by the values that are formatted into them: the spot's name, the
  user's vibe and the truncated reviews for stage 2; the city, the vibe and the research
  data for stage 3.
\<close>

datatype prompt =
    VibePrompt pyval string string
  | ItineraryPrompt string string "summary list"

datatype event =
    StWrite "frag list"
  | StError "frag list"
  | StWarning "frag list"
  | StSubheader string
  | StHeader string
  | StDivider
  | StMarkdown "frag list"
  | StLinkButton string string
  | StJson "dict list"
  | Geocode string
  | PlacesNearby pyval pyval int string
  | Place pyval
  | GenerateContent prompt

text \<open>A part of a model response: the name and the arguments of its function call.\<close>

record part =
  fc_name :: string
  fc_args :: dict

text \<open>
  The external collaborators. Each call returns a value or raises. The calls of stage 2
  are indexed by the position of the candidate in the loop, so that a collaborator may
  answer each call differently.

  The environment also holds what the program takes from its two libraries beyond the
  services. From \<^verbatim>\<open>google.generativeai.types\<close> (line 5) the functions build a schema
  (\<^verbatim>\<open>types.Schema.from_dict\<close>, by the name of the pydantic class), a tool
  (\<^verbatim>\<open>types.Tool\<close> of a \<^verbatim>\<open>types.FunctionDeclaration\<close>, by the name of the function) and a
  tool configuration (\<^verbatim>\<open>types.ToolConfig\<close> of a \<^verbatim>\<open>types.FunctionCallingConfig\<close>); each
  of these returns or raises. From pydantic, \<open>str_as_int\<close> is the conversion of a string
  to an integer that an \<^verbatim>\<open>int\<close> field applies, \<open>None\<close> where the string is no integer.

  The decorator \<^verbatim>\<open>st.cache_data\<close> of the three functions, the result cache of the host,
  is not part of the embedding: the definitions are the bodies of the functions.
\<close>

record env =
  geocode :: "string \<Rightarrow> exn + pyval"
  places_nearby :: "pyval \<Rightarrow> pyval \<Rightarrow> int \<Rightarrow> string \<Rightarrow> exn + pyval"
  place :: "nat \<Rightarrow> pyval \<Rightarrow> exn + pyval"
  generate_vibe :: "nat \<Rightarrow> prompt \<Rightarrow> exn + part list"
  generate_itinerary :: "prompt \<Rightarrow> exn + part list"
  types_Schema_from_dict :: "string \<Rightarrow> exn + unit"
  types_Tool :: "string \<Rightarrow> exn + unit"
  types_ToolConfig :: "string \<Rightarrow> exn + unit"
  str_as_int :: "string \<Rightarrow> int option"

text \<open>
  Lines 117-133 of agent 2 and lines 221-236 of agent 3: the schema, the tool and the
  tool configuration, built in this order. Neither block is inside a \<^verbatim>\<open>try\<close>, so an
  exception of any of the calls leaves the function.
\<close>

definition tool_setup :: "env \<Rightarrow> string \<Rightarrow> string \<Rightarrow> exn + unit" where
  "tool_setup w schema_class function_name =
     ebind (types_Schema_from_dict w schema_class) (\<lambda>json_schema.
     ebind (types_Tool w function_name) (\<lambda>tools.
       types_ToolConfig w function_name))"

section \<open>Agent 1: the inverse filter\<close>

text \<open>
  Lines 68-86, the \<^verbatim>\<open>try\<close> block: geocode the city, take the first result's location and
  search nearby. The result is the log and either the raw results or \<open>None\<close> when the
  function returns the empty list early.
\<close>

definition city_center :: "pyval \<Rightarrow> exn + pyval \<times> pyval" where
  "city_center geocode_result =
     ebind (py_index0 geocode_result) (\<lambda>first.
     ebind (py_item first ''geometry'') (\<lambda>geometry.
     ebind (py_item geometry ''location'') (\<lambda>center.
     ebind (py_item center ''lat'') (\<lambda>lat.
     ebind (py_item center ''lng'') (\<lambda>lng. Inr (lat, lng))))))"

definition maps_error :: "exn \<Rightarrow> event" where
  "maps_error e = StError [T ''Google Maps API error during search: '', E e]"

definition search_raw :: "env \<Rightarrow> string \<Rightarrow> string \<Rightarrow> int \<Rightarrow> event list \<times> pyval option" where
  "search_raw w city query radius_m =
     (case geocode w city of
        Inl e \<Rightarrow> ([Geocode city, maps_error e], None)
      | Inr geocode_result \<Rightarrow>
          if \<not> truthy geocode_result
          then ([Geocode city,
                 StError [T ''Could not find coordinates for city: '', T city]], None)
          else
            (case city_center geocode_result of
               Inl e \<Rightarrow> ([Geocode city, maps_error e], None)
             | Inr (lat, lng) \<Rightarrow>
                 (case places_nearby w lat lng radius_m query of
                    Inl e \<Rightarrow>
                      ([Geocode city, PlacesNearby lat lng radius_m query, maps_error e], None)
                  | Inr raw_results \<Rightarrow>
                      ([Geocode city, PlacesNearby lat lng radius_m query],
                       Some raw_results))))"

text \<open>
  Line 96, with Python's short-circuit \<^verbatim>\<open>and\<close>: the review count is not looked at when
  the rating test fails.
\<close>

definition passes_filter :: "real \<Rightarrow> int \<Rightarrow> pyval \<Rightarrow> pyval \<Rightarrow> exn + bool" where
  "passes_filter min_rating max_reviews rating review_count =
     ebind (num_of rating) (\<lambda>r.
       if \<not> (r \<ge> min_rating) then Inr False
       else ebind (num_of review_count) (\<lambda>c.
         Inr (c \<le> real_of_int max_reviews \<and> c > 0)))"

text \<open>
  Lines 88-102, the loop over the raw hits. It is not inside a \<^verbatim>\<open>try\<close>: an exception
  leaves the function.
\<close>

fun inverse_filter :: "real \<Rightarrow> int \<Rightarrow> pyval list \<Rightarrow> dict list \<Rightarrow> exn + dict list" where
  "inverse_filter min_rating max_reviews [] unseen_spots = Inr unseen_spots"
| "inverse_filter min_rating max_reviews (p # ps) unseen_spots =
     ebind (py_get p ''name'' PNone) (\<lambda>name.
     ebind (py_get p ''place_id'' PNone) (\<lambda>place_id.
     ebind (py_get p ''rating'' (PInt 0)) (\<lambda>rating.
     ebind (py_get p ''user_ratings_total'' (PInt 0)) (\<lambda>review_count.
     ebind (passes_filter min_rating max_reviews rating review_count) (\<lambda>ok.
       inverse_filter min_rating max_reviews ps
         (if ok
          then unseen_spots @
                 [[(''name'', name), (''place_id'', place_id),
                   (''rating'', rating), (''review_count'', review_count)]]
          else unseen_spots))))))"

definition agent1_find_unseen_spots ::
  "env \<Rightarrow> string \<Rightarrow> string \<Rightarrow> int \<Rightarrow> real \<Rightarrow> int \<Rightarrow> event list \<times> (exn + dict list)" where
  "agent1_find_unseen_spots w city query max_reviews min_rating radius_m =
     (let log0 = [StWrite [T ''**Agent 1:** Searching for '', T query, T '' in '', T city,
                           T ''...'']]
      in case search_raw w city query radius_m of
           (log1, None) \<Rightarrow> (log0 @ log1, Inr [])
         | (log1, Some raw_results) \<Rightarrow>
             (case ebind (py_get raw_results ''results'' (PList [])) (\<lambda>results.
                   ebind (py_iter results) (\<lambda>places.
                     inverse_filter min_rating max_reviews places [])) of
                Inl e \<Rightarrow> (log0 @ log1, Inl e)
              | Inr unseen_spots \<Rightarrow>
                  (log0 @ log1 @
                   [StWrite [T ''**Agent 1:** Found '', N (length unseen_spots),
                             T '' potential unseen spots.'']],
                   Inr unseen_spots)))"

section \<open>Agent 2: vibe analysis\<close>

text \<open>
  The candidates are dictionary objects that the loop mutates in place, and the list it
  returns holds the same objects. An object is an address into a store; the argument of
  the stage is a list of addresses, which may name one object more than once.
\<close>

record st2 =
  heap :: "nat \<Rightarrow> dict"
  analyzed_spots :: "nat list"
  trace :: "event list"

definition emit :: "event \<Rightarrow> st2 \<Rightarrow> st2" where
  "emit ev s = s\<lparr>trace := trace s @ [ev]\<rparr>"

definition store :: "nat \<Rightarrow> string \<Rightarrow> pyval \<Rightarrow> st2 \<Rightarrow> st2" where
  "store a k v s = s\<lparr>heap := (heap s)(a := setitem (heap s a) k v)\<rparr>"

text \<open>
  Lines 138-144: the detail fetch. Both \<^verbatim>\<open>place_details.get('result', {})\<close> chains are
  evaluated, the first one to the end before the second, and the URL is stored in the
  candidate before the reviews are looked at.
\<close>

definition fetch_details :: "env \<Rightarrow> nat \<Rightarrow> nat \<Rightarrow> st2 \<Rightarrow> st2 \<times> (exn + pyval)" where
  "fetch_details w i a s =
     (case getitem (heap s a) ''place_id'' of
        Inl e \<Rightarrow> (s, Inl e)
      | Inr place_id \<Rightarrow>
          (let s1 = emit (Place place_id) s in
           case place w i place_id of
             Inl e \<Rightarrow> (s1, Inl e)
           | Inr place_details \<Rightarrow>
               (case ebind (py_get place_details ''result'' (PDict []))
                       (\<lambda>r. py_get r ''reviews'' (PList [])) of
                  Inl e \<Rightarrow> (s1, Inl e)
                | Inr reviews \<Rightarrow>
                    (case ebind (py_get place_details ''result'' (PDict []))
                            (\<lambda>r. py_get r ''url'' (PStr [])) of
                       Inl e \<Rightarrow> (s1, Inl e)
                     | Inr url \<Rightarrow> (store a ''url'' url s1, Inr reviews)))))"

text \<open>Line 150: \<^verbatim>\<open>" ".join([r.get('text', '') for r in reviews])\<close>.\<close>

fun texts :: "pyval list \<Rightarrow> exn + pyval list" where
  "texts [] = Inr []"
| "texts (r # rs) =
     ebind (py_get r ''text'' (PStr [])) (\<lambda>t. ebind (texts rs) (\<lambda>ts. Inr (t # ts)))"

fun str_join :: "string \<Rightarrow> pyval list \<Rightarrow> exn + string" where
  "str_join sep [] = Inr []"
| "str_join sep [PStr s] = Inr s"
| "str_join sep (PStr s # x # xs) = ebind (str_join sep (x # xs)) (\<lambda>rest. Inr (s @ sep @ rest))"
| "str_join sep _ = Inl TypeError"

definition review_snippets :: "pyval \<Rightarrow> exn + string" where
  "review_snippets reviews =
     ebind (py_iter reviews) (\<lambda>rs. ebind (texts rs) (\<lambda>ts. str_join '' '' ts))"

subsection \<open>The schema of the analysis\<close>

text \<open>
  \<^verbatim>\<open>SpotVibeAnalysis\<close> (lines 41-46) declares four required fields by their types alone:
  two lists of strings, an integer and a string. No field carries a bound (\<^verbatim>\<open>ge\<close>, \<^verbatim>\<open>le\<close>,
  \<^verbatim>\<open>min_length\<close>, \<^verbatim>\<open>max_length\<close>); the ranges stand in the descriptions only.
  \<^verbatim>\<open>model_validate\<close> is pydantic's, in its default (lax) mode: a string field takes a
  string, a list field a list whose elements validate. An integer field takes an
  \<^verbatim>\<open>int\<close> of any size, a \<^verbatim>\<open>bool\<close>, a \<^verbatim>\<open>float\<close> without fractional part that lies strictly
  between \<open>- 2 ^ 63\<close> and \<open>2 ^ 63\<close>, and a string that the library's conversion
  \<open>conv\<close> reads as an integer.
\<close>

record SpotVibeAnalysis =
  vibe_adjectives :: "string list"
  unique_features :: "string list"
  vibe_match_score :: int
  vibe_match_justification :: string

definition required :: "dict \<Rightarrow> string \<Rightarrow> exn + pyval" where
  "required args k = (case map_of args k of None \<Rightarrow> Inl ValidationError | Some v \<Rightarrow> Inr v)"

fun as_str :: "pyval \<Rightarrow> exn + string" where
  "as_str (PStr s) = Inr s"
| "as_str _ = Inl ValidationError"

fun as_strs :: "pyval list \<Rightarrow> exn + string list" where
  "as_strs [] = Inr []"
| "as_strs (x # xs) = ebind (as_str x) (\<lambda>s. ebind (as_strs xs) (\<lambda>ss. Inr (s # ss)))"

fun as_str_list :: "pyval \<Rightarrow> exn + string list" where
  "as_str_list (PList xs) = as_strs xs"
| "as_str_list _ = Inl ValidationError"

fun as_int :: "(string \<Rightarrow> int option) \<Rightarrow> pyval \<Rightarrow> exn + int" where
  "as_int conv (PInt n) = Inr n"
| "as_int conv (PBool b) = Inr (if b then 1 else 0)"
| "as_int conv (PFloat r) =
     (if of_int \<lfloor>r\<rfloor> = r \<and> - (2 ^ 63) < r \<and> r < 2 ^ 63 then Inr \<lfloor>r\<rfloor>
      else Inl ValidationError)"
| "as_int conv (PStr s) = (case conv s of None \<Rightarrow> Inl ValidationError | Some n \<Rightarrow> Inr n)"
| "as_int conv _ = Inl ValidationError"

definition validate_SpotVibeAnalysis ::
  "(string \<Rightarrow> int option) \<Rightarrow> dict \<Rightarrow> exn + SpotVibeAnalysis" where
  "validate_SpotVibeAnalysis conv args =
     ebind (ebind (required args ''vibe_adjectives'') as_str_list) (\<lambda>adjectives.
     ebind (ebind (required args ''unique_features'') as_str_list) (\<lambda>features.
     ebind (ebind (required args ''vibe_match_score'') (as_int conv)) (\<lambda>score.
     ebind (ebind (required args ''vibe_match_justification'') as_str) (\<lambda>justification.
       Inr \<lparr>vibe_adjectives = adjectives, unique_features = features,
            vibe_match_score = score, vibe_match_justification = justification\<rparr>))))"

definition model_dump :: "SpotVibeAnalysis \<Rightarrow> dict" where
  "model_dump va =
     [(''vibe_adjectives'', PList (map PStr (vibe_adjectives va))),
      (''unique_features'', PList (map PStr (unique_features va))),
      (''vibe_match_score'', PInt (vibe_match_score va)),
      (''vibe_match_justification'', PStr (vibe_match_justification va))]"

subsection \<open>The loop\<close>

text \<open>
  Every message of the loop formats \<^verbatim>\<open>spot['name']\<close>, which raises \<^verbatim>\<open>KeyError\<close> on a
  candidate without that key.
\<close>

definition write_name :: "nat \<Rightarrow> (pyval \<Rightarrow> event) \<Rightarrow> st2 \<Rightarrow> st2 \<times> (exn + unit)" where
  "write_name a msg s =
     (case getitem (heap s a) ''name'' of
        Inl e \<Rightarrow> (s, Inl e)
      | Inr name \<Rightarrow> (emit (msg name) s, Inr ()))"

text \<open>Lines 176-186: the first part's function call is validated and stored.\<close>

definition record_analysis :: "env \<Rightarrow> nat \<Rightarrow> part list \<Rightarrow> st2 \<Rightarrow> st2 \<times> (exn + unit)" where
  "record_analysis w a parts s =
     (case parts of
        [] \<Rightarrow> (s, Inl IndexError)
      | fc # _ \<Rightarrow>
          if fc_name fc = ''analyze_spot_vibe''
          then
            (case validate_SpotVibeAnalysis (str_as_int w) (fc_args fc) of
               Inl e \<Rightarrow> (s, Inl e)
             | Inr vibe_analysis \<Rightarrow>
                 (let s1 = store a ''vibe_analysis'' (PDict (model_dump vibe_analysis)) s;
                      s2 = s1\<lparr>analyzed_spots := analyzed_spots s1 @ [a]\<rparr>
                  in write_name a
                       (\<lambda>name. StWrite [T ''    - Analyzed '', V name, T ''. Vibe Score: '',
                                         I (vibe_match_score vibe_analysis), T ''/10''])
                       s2))
          else
            write_name a
              (\<lambda>name. StWrite [T ''    - Skipping '', V name,
                                T '' (Gemini did not return valid analysis).''])
              s)"

text \<open>Lines 137-186, the body of the \<^verbatim>\<open>try\<close>.\<close>

definition try_body :: "env \<Rightarrow> string \<Rightarrow> nat \<Rightarrow> nat \<Rightarrow> st2 \<Rightarrow> st2 \<times> (exn + unit)" where
  "try_body w user_vibe i a s =
     (case fetch_details w i a s of
        (s1, Inl e) \<Rightarrow> (s1, Inl e)
      | (s1, Inr reviews) \<Rightarrow>
          if \<not> truthy reviews
          then write_name a
                 (\<lambda>name. StWrite [T ''    - Skipping '', V name, T '' (no reviews found).''])
                 s1
          else
            (case ebind (review_snippets reviews) (\<lambda>snippets.
                  ebind (getitem (heap s1 a) ''name'') (\<lambda>name.
                    Inr (VibePrompt name user_vibe (take 3000 snippets)))) of
               Inl e \<Rightarrow> (s1, Inl e)
             | Inr prompt \<Rightarrow>
                 (let s2 = emit (GenerateContent prompt) s1 in
                  case generate_vibe w i prompt of
                    Inl e \<Rightarrow> (s2, Inl e)
                  | Inr parts \<Rightarrow> record_analysis w a parts s2)))"

text \<open>Lines 136-189: the \<^verbatim>\<open>try\<close> with its handler, which formats the name again.\<close>

definition loop_step :: "env \<Rightarrow> string \<Rightarrow> nat \<Rightarrow> nat \<Rightarrow> st2 \<Rightarrow> st2 \<times> (exn + unit)" where
  "loop_step w user_vibe i a s =
     (case try_body w user_vibe i a s of
        (s1, Inr u) \<Rightarrow> (s1, Inr u)
      | (s1, Inl e) \<Rightarrow>
          write_name a (\<lambda>name. StWarning [T ''Error analyzing '', V name, T '': '', E e]) s1)"

fun agent2_loop :: "env \<Rightarrow> string \<Rightarrow> nat \<Rightarrow> nat list \<Rightarrow> st2 \<Rightarrow> st2 \<times> (exn + unit)" where
  "agent2_loop w user_vibe i [] s = (s, Inr ())"
| "agent2_loop w user_vibe i (a # as) s =
     (case loop_step w user_vibe i a s of
        (s1, Inl e) \<Rightarrow> (s1, Inl e)
      | (s1, Inr u) \<Rightarrow> agent2_loop w user_vibe (Suc i) as s1)"

text \<open>
  Line 192: \<^verbatim>\<open>analyzed_spots.sort(key=..., reverse=True)\<close>. The keys are computed first,
  one per element; the list is then sorted on them by a stable sort, which for
  \<^verbatim>\<open>reverse=True\<close> is a stable ascending sort of the reversed list, reversed again. The
  keys are compared as numbers.
\<close>

definition sort_key_of :: "dict \<Rightarrow> exn + real" where
  "sort_key_of x =
     ebind (getitem x ''vibe_analysis'') (\<lambda>va.
     ebind (py_item va ''vibe_match_score'') num_of)"

fun sort_keys :: "(nat \<Rightarrow> dict) \<Rightarrow> nat list \<Rightarrow> exn + real list" where
  "sort_keys h [] = Inr []"
| "sort_keys h (a # as) =
     ebind (sort_key_of (h a)) (\<lambda>k. ebind (sort_keys h as) (\<lambda>ks. Inr (k # ks)))"

definition sort_reverse :: "(nat \<Rightarrow> dict) \<Rightarrow> nat list \<Rightarrow> exn + nat list" where
  "sort_reverse h xs =
     ebind (sort_keys h xs) (\<lambda>ks. Inr (map snd (rev (sort_key fst (rev (zip ks xs))))))"

text \<open>Line 194: \<^verbatim>\<open>analyzed_spots[0]['name'] if analyzed_spots else 'None'\<close>.\<close>

definition top_spot :: "(nat \<Rightarrow> dict) \<Rightarrow> nat list \<Rightarrow> exn + pyval" where
  "top_spot h xs = (case xs of [] \<Rightarrow> Inr (PStr ''None'') | a # _ \<Rightarrow> getitem (h a) ''name'')"

text \<open>
  Lines 108-195. After the opening message and the empty result list come the library
  calls of lines 117-133, then the loop, the sort and the closing message.
\<close>

definition agent2_analyze_vibe ::
  "env \<Rightarrow> (nat \<Rightarrow> dict) \<Rightarrow> nat list \<Rightarrow> string \<Rightarrow> st2 \<times> (exn + nat list)" where
  "agent2_analyze_vibe w h unseen_spots user_vibe =
     (let s0 = \<lparr>heap = h, analyzed_spots = [],
               trace = [StWrite [T ''**Agent 2:** Analyzing vibes for '',
                                 N (length unseen_spots), T '' spots...'']]\<rparr>
      in case tool_setup w ''SpotVibeAnalysis'' ''analyze_spot_vibe'' of
           Inl e \<Rightarrow> (s0, Inl e)
         | Inr tool_config \<Rightarrow>
             (case agent2_loop w user_vibe 0 unseen_spots s0 of
                (s1, Inl e) \<Rightarrow> (s1, Inl e)
              | (s1, Inr u) \<Rightarrow>
                  (case sort_reverse (heap s1) (analyzed_spots s1) of
                     Inl e \<Rightarrow> (s1, Inl e)
                   | Inr sorted_spots \<Rightarrow>
                       (let s2 = s1\<lparr>analyzed_spots := sorted_spots\<rparr> in
                        case top_spot (heap s2) sorted_spots of
                          Inl e \<Rightarrow> (s2, Inl e)
                        | Inr name \<Rightarrow>
                            (emit (StWrite [T ''**Agent 2:** Finished analysis. Top spot: '',
                                            V name])
                               s2,
                             Inr sorted_spots)))))"

section \<open>Agent 3: the narrative\<close>

text \<open>
  Lines 208-218: one summary per spot. The loop is outside the \<^verbatim>\<open>try\<close>, so a missing key
  leaves the function as a \<^verbatim>\<open>KeyError\<close>.
\<close>

definition spot_summary :: "dict \<Rightarrow> exn + summary" where
  "spot_summary spot =
     ebind (getitem spot ''name'') (\<lambda>name.
     ebind (getitem spot ''url'') (\<lambda>url.
     ebind (getitem spot ''rating'') (\<lambda>rating.
     ebind (getitem spot ''review_count'') (\<lambda>review_count.
     ebind (ebind (getitem spot ''vibe_analysis'') (\<lambda>va. py_item va ''vibe_adjectives''))
       (\<lambda>adjectives.
     ebind (ebind (getitem spot ''vibe_analysis'') (\<lambda>va. py_item va ''unique_features''))
       (\<lambda>features.
     ebind (ebind (getitem spot ''vibe_analysis'')
              (\<lambda>va. py_item va ''vibe_match_justification''))
       (\<lambda>justification.
       Inr \<lparr>s_name = name, s_url = url, s_rating = rating, s_review_count = review_count,
            s_vibe_adjectives = adjectives, s_unique_features = features,
            s_vibe_justification = justification\<rparr>)))))))"

fun spot_data_summary :: "dict list \<Rightarrow> summary list \<Rightarrow> exn + summary list" where
  "spot_data_summary [] acc = Inr acc"
| "spot_data_summary (spot # spots) acc =
     ebind (spot_summary spot) (\<lambda>sm. spot_data_summary spots (acc @ [sm]))"

text \<open>
  \<^verbatim>\<open>FinalItinerary\<close> (lines 48-57): a title and a list of spots of three strings each. The
  list has no length bound; "A list of 3 curated, unseen spots." is its description.
\<close>

record FinalItinerarySpot =
  place_name :: string
  pitch_narrative :: string
  google_maps_link :: string

record FinalItinerary =
  itinerary_title :: string
  itinerary_spots :: "FinalItinerarySpot list"

fun validate_FinalItinerarySpot :: "pyval \<Rightarrow> exn + FinalItinerarySpot" where
  "validate_FinalItinerarySpot (PDict kvs) =
     ebind (ebind (required kvs ''place_name'') as_str) (\<lambda>name.
     ebind (ebind (required kvs ''pitch_narrative'') as_str) (\<lambda>pitch.
     ebind (ebind (required kvs ''google_maps_link'') as_str) (\<lambda>link.
       Inr \<lparr>place_name = name, pitch_narrative = pitch, google_maps_link = link\<rparr>)))"
| "validate_FinalItinerarySpot _ = Inl ValidationError"

fun validate_spots :: "pyval list \<Rightarrow> exn + FinalItinerarySpot list" where
  "validate_spots [] = Inr []"
| "validate_spots (x # xs) =
     ebind (validate_FinalItinerarySpot x) (\<lambda>sp.
     ebind (validate_spots xs) (\<lambda>sps. Inr (sp # sps)))"

fun as_spot_list :: "pyval \<Rightarrow> exn + FinalItinerarySpot list" where
  "as_spot_list (PList xs) = validate_spots xs"
| "as_spot_list _ = Inl ValidationError"

definition validate_FinalItinerary :: "dict \<Rightarrow> exn + FinalItinerary" where
  "validate_FinalItinerary args =
     ebind (ebind (required args ''itinerary_title'') as_str) (\<lambda>title.
     ebind (ebind (required args ''itinerary_spots'') as_spot_list) (\<lambda>spots.
       Inr \<lparr>itinerary_title = title, itinerary_spots = spots\<rparr>))"

text \<open>Lines 261-268, inside the \<^verbatim>\<open>try\<close>: \<open>None\<close> is the branch that reports a wrong call.\<close>

definition parse_itinerary :: "part list \<Rightarrow> exn + FinalItinerary option" where
  "parse_itinerary parts =
     (case parts of
        [] \<Rightarrow> Inl IndexError
      | fc # _ \<Rightarrow>
          if fc_name fc = ''generate_itinerary''
          then ebind (validate_FinalItinerary (fc_args fc)) (\<lambda>final_itinerary.
                 Inr (Some final_itinerary))
          else Inr None)"

text \<open>
  Lines 198-272: the opening message, the early return, the summaries, the library calls
  of lines 221-236, the prompt, and the \<^verbatim>\<open>try\<close> around the model call.
\<close>

definition agent3_generate_narrative ::
  "env \<Rightarrow> dict list \<Rightarrow> string \<Rightarrow> string \<Rightarrow> event list \<times> (exn + FinalItinerary option)" where
  "agent3_generate_narrative w top_spots city vibe =
     (let log0 = [StWrite [T ''**Agent 3:** Generating final narrative for '',
                           N (length top_spots), T '' spots...'']]
      in if top_spots = [] then (log0, Inr None)
         else
           (case spot_data_summary top_spots [] of
              Inl e \<Rightarrow> (log0, Inl e)
            | Inr summaries \<Rightarrow>
                (case tool_setup w ''FinalItinerary'' ''generate_itinerary'' of
                   Inl e \<Rightarrow> (log0, Inl e)
                 | Inr tool_config \<Rightarrow>
                     (let prompt = ItineraryPrompt city vibe summaries;
                          log1 = log0 @ [GenerateContent prompt]
                      in case ebind (generate_itinerary w prompt) parse_itinerary of
                           Inl e \<Rightarrow>
                             (log1 @
                              [StError [T ''Agent 3 Error during narrative generation: '',
                                        E e]],
                              Inr None)
                         | Inr None \<Rightarrow>
                             (log1 @ [StError [T ''Agent 3 Error: LLM failed to generate final itinerary structure.'']],
                              Inr None)
                         | Inr (Some final_itinerary) \<Rightarrow>
                             (log1, Inr (Some final_itinerary))))))"

section \<open>The run button\<close>

text \<open>
  Lines 301-358. Agent 1 returns fresh dictionaries; they are the objects at the
  addresses \<open>0, 1, ...\<close> of the store that agent 2 works on. Layout calls (spinner,
  columns, expander) are left out; what is written, warned and shown is in the log.
\<close>

definition alloc :: "dict list \<Rightarrow> nat \<Rightarrow> dict" where
  "alloc ds a = (if a < length ds then ds ! a else [])"

definition show_spot :: "FinalItinerarySpot \<Rightarrow> event list" where
  "show_spot spot =
     [StSubheader (place_name spot),
      StMarkdown [T ''> _'', T (pitch_narrative spot), T ''_''],
      StLinkButton ''View on Google Maps'' (google_maps_link spot),
      StDivider]"

definition show_result :: "FinalItinerary option \<Rightarrow> dict list \<Rightarrow> event list" where
  "show_result final_itinerary top3 =
     StSubheader ''Final Curated Itinerary'' #
     (case final_itinerary of
        None \<Rightarrow> [StError [T ''Agent 3 failed to create the final narrative.'']]
      | Some it \<Rightarrow>
          [StHeader (itinerary_title it), StDivider] @
          concat (map show_spot (itinerary_spots it)) @ [StJson top3])"

definition run_pipeline ::
  "env \<Rightarrow> string \<Rightarrow> string \<Rightarrow> real \<Rightarrow> int \<Rightarrow> event list \<times> (exn + unit)" where
  "run_pipeline w city_input vibe_input min_rating_input max_reviews_input =
     (let log0 = [StSubheader ''Agent Logs''] in
      case agent1_find_unseen_spots w city_input vibe_input max_reviews_input
             min_rating_input 3000 of
        (log1, Inl e) \<Rightarrow> (log0 @ log1, Inl e)
      | (log1, Inr unseen_spots) \<Rightarrow>
          if unseen_spots = []
          then (log0 @ log1 @
                [StWarning [T ''Agent 1 found no spots matching your inverse filter. Try increasing the Max Review Count.'']],
                Inr ())
          else
            (case agent2_analyze_vibe w (alloc unseen_spots) [0..<length unseen_spots]
                    vibe_input of
               (s, Inl e) \<Rightarrow> (log0 @ log1 @ trace s, Inl e)
             | (s, Inr analyzed) \<Rightarrow>
                 if analyzed = []
                 then (log0 @ log1 @ trace s @
                       [StWarning [T ''Agent 2 found no spots that matched the vibe.'']],
                       Inr ())
                 else
                   (let top3 = map (heap s) (take 3 analyzed) in
                    case agent3_generate_narrative w top3 city_input vibe_input of
                      (log3, Inl e) \<Rightarrow> (log0 @ log1 @ trace s @ log3, Inl e)
                    | (log3, Inr final_itinerary) \<Rightarrow>
                        (log0 @ log1 @ trace s @ log3 @ show_result final_itinerary top3,
                         Inr ()))))"

definition main_content ::
  "env \<Rightarrow> bool \<Rightarrow> string \<Rightarrow> string \<Rightarrow> real \<Rightarrow> int \<Rightarrow> event list \<times> (exn + unit)" where
  "main_content w run_button city_input vibe_input min_rating_input max_reviews_input =
     (if run_button
      then if city_input = [] \<or> vibe_input = []
           then ([StError [T ''Please enter a City and a Vibe.'']], Inr ())
           else run_pipeline w city_input vibe_input min_rating_input max_reviews_input
      else ([], Inr ()))"

section \<open>Notions used in the properties\<close>

subsection \<open>Raw hits and eligibility\<close>

text \<open>
  A raw hit as the places search documents it: a dictionary whose \<^verbatim>\<open>rating\<close> and
  \<^verbatim>\<open>user_ratings_total\<close> are numbers when they are present. A field that is absent reads
  as its default.
\<close>

fun field :: "pyval \<Rightarrow> string \<Rightarrow> pyval \<Rightarrow> pyval" where
  "field (PDict kvs) k dflt = (case map_of kvs k of None \<Rightarrow> dflt | Some v \<Rightarrow> v)"
| "field _ k dflt = dflt"

fun is_dict :: "pyval \<Rightarrow> bool" where
  "is_dict (PDict kvs) = True"
| "is_dict _ = False"

fun is_num :: "pyval \<Rightarrow> bool" where
  "is_num (PInt n) = True"
| "is_num (PFloat r) = True"
| "is_num _ = False"

fun num :: "pyval \<Rightarrow> real" where
  "num (PInt n) = of_int n"
| "num (PFloat r) = r"
| "num _ = 0"

definition typed_hit :: "pyval \<Rightarrow> bool" where
  "typed_hit p \<longleftrightarrow>
     is_dict p \<and> is_num (field p ''rating'' (PInt 0)) \<and>
     is_num (field p ''user_ratings_total'' (PInt 0))"

definition hit_has :: "pyval \<Rightarrow> string \<Rightarrow> bool" where
  "hit_has p k \<longleftrightarrow> (case p of PDict kvs \<Rightarrow> has_key kvs k | _ \<Rightarrow> False)"

definition eligible :: "real \<Rightarrow> int \<Rightarrow> pyval \<Rightarrow> bool" where
  "eligible min_rating max_reviews p \<longleftrightarrow>
     num (field p ''rating'' (PInt 0)) \<ge> min_rating \<and>
     0 < num (field p ''user_ratings_total'' (PInt 0)) \<and>
     num (field p ''user_ratings_total'' (PInt 0)) \<le> real_of_int max_reviews"

definition candidate :: "pyval \<Rightarrow> dict" where
  "candidate p =
     [(''name'', field p ''name'' PNone),
      (''place_id'', field p ''place_id'' PNone),
      (''rating'', field p ''rating'' (PInt 0)),
      (''review_count'', field p ''user_ratings_total'' (PInt 0))]"

text \<open>A candidate as agent 1 builds it: a dictionary with the four keys.\<close>

definition full_candidate :: "dict \<Rightarrow> bool" where
  "full_candidate c \<longleftrightarrow>
     has_key c ''name'' \<and> has_key c ''place_id'' \<and> has_key c ''rating'' \<and>
     has_key c ''review_count''"

subsection \<open>Scoring of one candidate\<close>

text \<open>
  What the detail fetch of the candidate at position \<open>i\<close> yields: the reviews and the
  URL, when the call returns a response from which both can be read.
\<close>

definition fetched :: "env \<Rightarrow> nat \<Rightarrow> dict \<Rightarrow> (pyval \<times> pyval) option" where
  "fetched w i spot =
     (case getitem spot ''place_id'' of
        Inl e \<Rightarrow> None
      | Inr place_id \<Rightarrow>
          (case place w i place_id of
             Inl e \<Rightarrow> None
           | Inr place_details \<Rightarrow>
               (case ebind (py_get place_details ''result'' (PDict []))
                       (\<lambda>r. py_get r ''reviews'' (PList [])) of
                  Inl e \<Rightarrow> None
                | Inr reviews \<Rightarrow>
                    (case ebind (py_get place_details ''result'' (PDict []))
                            (\<lambda>r. py_get r ''url'' (PStr [])) of
                       Inl e \<Rightarrow> None
                     | Inr url \<Rightarrow> Some (reviews, url)))))"

text \<open>
  Scoring succeeds for the candidate at position \<open>i\<close> when the detail fetch succeeds,
  there are reviews, their texts can be joined, the model call returns, its first part
  calls \<^verbatim>\<open>analyze_spot_vibe\<close> and the arguments validate. The result is the validated
  analysis.
\<close>

definition scoring :: "env \<Rightarrow> string \<Rightarrow> nat \<Rightarrow> dict \<Rightarrow> SpotVibeAnalysis option" where
  "scoring w user_vibe i spot =
     (case fetched w i spot of
        None \<Rightarrow> None
      | Some (reviews, url) \<Rightarrow>
          if \<not> truthy reviews then None
          else
            (case ebind (review_snippets reviews) (\<lambda>snippets.
                  ebind (getitem spot ''name'') (\<lambda>name.
                    generate_vibe w i (VibePrompt name user_vibe (take 3000 snippets)))) of
               Inl e \<Rightarrow> None
             | Inr [] \<Rightarrow> None
             | Inr (fc # _) \<Rightarrow>
                 if fc_name fc = ''analyze_spot_vibe''
                 then (case validate_SpotVibeAnalysis (str_as_int w) (fc_args fc) of
                         Inl e \<Rightarrow> None
                       | Inr va \<Rightarrow> Some va)
                 else None))"

text \<open>The input candidates for which scoring succeeds, in input order.\<close>

definition scored :: "env \<Rightarrow> string \<Rightarrow> nat \<Rightarrow> (nat \<Rightarrow> dict) \<Rightarrow> nat list \<Rightarrow> nat list" where
  "scored w user_vibe i h spots =
     map snd (filter (\<lambda>(j, a). scoring w user_vibe j (h a) \<noteq> None) (enumerate i spots))"

text \<open>A candidate that carries a complete analysis record.\<close>

definition analysed :: "dict \<Rightarrow> bool" where
  "analysed spot \<longleftrightarrow> (\<exists>va. getitem spot ''vibe_analysis'' = Inr (PDict (model_dump va)))"

text \<open>
  How stage 2 may change a candidate: it sets \<^verbatim>\<open>url\<close> and \<^verbatim>\<open>vibe_analysis\<close> and leaves
  every other key as it is; a URL stays, and so does a complete analysis record.
\<close>

definition extends :: "dict \<Rightarrow> dict \<Rightarrow> bool" where
  "extends d d' \<longleftrightarrow>
     (\<forall>k. k \<noteq> ''url'' \<and> k \<noteq> ''vibe_analysis'' \<longrightarrow> map_of d' k = map_of d k) \<and>
     (has_key d ''url'' \<longrightarrow> has_key d' ''url'') \<and>
     (analysed d \<longrightarrow> analysed d')"

text \<open>What one pass of the loop body makes of the candidate at position \<open>i\<close>.\<close>

definition step_dict :: "env \<Rightarrow> string \<Rightarrow> nat \<Rightarrow> dict \<Rightarrow> dict" where
  "step_dict w user_vibe i spot =
     (case fetched w i spot of
        None \<Rightarrow> spot
      | Some (reviews, url) \<Rightarrow>
          (case scoring w user_vibe i spot of
             None \<Rightarrow> setitem spot ''url'' url
           | Some va \<Rightarrow>
               setitem (setitem spot ''url'' url) ''vibe_analysis'' (PDict (model_dump va))))"

subsection \<open>Values that conform to the itinerary schema\<close>



subsection \<open>The order of the output\<close>

text \<open>
  The sort key of the candidate at an address, and the stable descending order on it.
\<close>

definition the_key :: "(nat \<Rightarrow> dict) \<Rightarrow> nat \<Rightarrow> real" where
  "the_key h a = (case sort_key_of (h a) of Inl e \<Rightarrow> 0 | Inr k \<Rightarrow> k)"

definition sorted_desc :: "(nat \<Rightarrow> dict) \<Rightarrow> nat list \<Rightarrow> nat list" where
  "sorted_desc h xs = rev (sort_key (the_key h) (rev xs))"

section \<open>Sample runs\<close>

text \<open>
  The module \<^verbatim>\<open>google.generativeai.types\<close> has the attributes \<^verbatim>\<open>Tool\<close> and
  \<^verbatim>\<open>FunctionDeclaration\<close>; it has no attribute \<^verbatim>\<open>Schema\<close>, \<^verbatim>\<open>ToolConfig\<close> or
  \<^verbatim>\<open>FunctionCallingConfig\<close>, which are names of the other SDK, \<^verbatim>\<open>google.genai\<close>. Reading
  a missing attribute of a module raises \<^verbatim>\<open>AttributeError\<close>. The sample environments
  answer the three library calls as this module does.

  Their conversion of strings reads a decimal numeral with an optional sign. The samples
  hold no string where an integer is expected.
\<close>

fun digits :: "string \<Rightarrow> int \<Rightarrow> int option" where
  "digits [] acc = Some acc"
| "digits (c # cs) acc =
     (if 48 \<le> (of_char c :: nat) \<and> (of_char c :: nat) \<le> 57
      then digits cs (10 * acc + int (of_char c) - 48)
      else None)"

definition decimal :: "string \<Rightarrow> int option" where
  "decimal s =
     (case s of
        [] \<Rightarrow> None
      | c # cs \<Rightarrow>
          if cs \<noteq> [] \<and> c = CHR ''-'' then map_option uminus (digits cs 0)
          else if cs \<noteq> [] \<and> c = CHR ''+'' then digits cs 0
          else digits s 0)"

subsection \<open>A search in Lisbon\<close>

definition hit_simao :: pyval where
  "hit_simao = PDict [(''name'', PStr ''Livraria do Simao''), (''place_id'', PStr ''p1''),
                      (''rating'', PFloat 4.8), (''user_ratings_total'', PInt 87)]"

definition hit_brasileira :: pyval where
  "hit_brasileira = PDict [(''name'', PStr ''A Brasileira''), (''place_id'', PStr ''p2''),
                           (''rating'', PFloat 4.6), (''user_ratings_total'', PInt 5200)]"

definition hit_nameless :: pyval where
  "hit_nameless = PDict [(''rating'', PFloat 4.9), (''user_ratings_total'', PInt 40)]"

definition hit_unrated :: pyval where
  "hit_unrated = PDict [(''name'', PStr ''Novo''), (''place_id'', PStr ''p4''),
                        (''user_ratings_total'', PInt 12)]"

definition hit_fabrica :: pyval where
  "hit_fabrica = PDict [(''name'', PStr ''Fabrica''), (''place_id'', PStr ''p5''),
                        (''rating'', PFloat 4.7), (''user_ratings_total'', PInt 120)]"

definition lisbon_hits :: "pyval list" where
  "lisbon_hits = [hit_simao, hit_brasileira, hit_nameless, hit_unrated, hit_fabrica]"

definition analysis_args :: "pyval \<Rightarrow> dict" where
  "analysis_args score =
     [(''vibe_adjectives'', PList [PStr ''cozy'', PStr ''quiet'', PStr ''vintage'']),
      (''unique_features'', PList [PStr ''old books'']),
      (''vibe_match_score'', score),
      (''vibe_match_justification'', PStr ''reviews praise the calm'')]"

definition details :: "string list \<Rightarrow> string \<Rightarrow> pyval" where
  "details review_texts url =
     PDict [(''result'',
             PDict [(''reviews'', PList (map (\<lambda>t. PDict [(''text'', PStr t)]) review_texts)),
                    (''url'', PStr url)])]"

definition one_spot_args :: dict where
  "one_spot_args =
     [(''itinerary_title'', PStr ''Quiet Lisbon''),
      (''itinerary_spots'',
       PList [PDict [(''place_name'', PStr ''Livraria do Simao''),
                     (''pitch_narrative'', PStr ''A shelf-lined room.''),
                     (''google_maps_link'', PStr ''https://maps/p1'')]])]"

text \<open>
  The services of the Lisbon run: the first candidate has reviews and the model would
  score it with 8; the detail fetch of the second fails; the third has a URL and no
  reviews.
\<close>

definition lisbon :: env where
  "lisbon =
     \<lparr>geocode = (\<lambda>city.
        Inr (PList [PDict [(''geometry'',
               PDict [(''location'', PDict [(''lat'', PFloat 38.7), (''lng'', PFloat (-9.1))])])]])),
      places_nearby = (\<lambda>lat lng radius_m keyword.
        Inr (PDict [(''results'', PList lisbon_hits)])),
      place = (\<lambda>i place_id.
        if i = 0 then Inr (details [''calm'', ''old books''] ''https://maps/p1'')
        else if i = 1 then Inl (ServiceError ''INVALID_REQUEST'')
        else Inr (PDict [(''result'', PDict [(''url'', PStr ''https://maps/p5'')])])),
      generate_vibe = (\<lambda>i prompt.
        Inr [\<lparr>fc_name = ''analyze_spot_vibe'', fc_args = analysis_args (PFloat 8)\<rparr>]),
      generate_itinerary = (\<lambda>prompt.
        Inr [\<lparr>fc_name = ''generate_itinerary'', fc_args = one_spot_args\<rparr>]),
      types_Schema_from_dict = (\<lambda>schema_class. Inl AttributeError),
      types_Tool = (\<lambda>function_name. Inr ()),
      types_ToolConfig = (\<lambda>function_name. Inl AttributeError),
      str_as_int = decimal\<rparr>"

subsection \<open>Five candidates in stage 2\<close>

definition spot :: "string \<Rightarrow> string \<Rightarrow> dict" where
  "spot name place_id =
     [(''name'', PStr name), (''place_id'', PStr place_id),
      (''rating'', PFloat 4.8), (''review_count'', PInt 87)]"

definition five_spots :: "nat \<Rightarrow> dict" where
  "five_spots =
     alloc [spot ''Simao'' ''p1'', spot ''Bertrand'' ''p2'', spot ''Ler'' ''p3'',
            spot ''Fabrica'' ''p4'', spot ''Copenhagen'' ''p5'']"

text \<open>
  The services of the second run: every detail fetch succeeds; the model would score
  the candidates at positions 0 and 3 with 7 and the one at position 1 with 11; it
  answers 7.5 for position 2, which is no integer, and the call for position 4 fails.
  The itinerary call would return a single spot.
\<close>

definition reviewers :: env where
  "reviewers =
     \<lparr>geocode = (\<lambda>city. Inl (ServiceError ''unused'')),
      places_nearby = (\<lambda>lat lng radius_m keyword. Inl (ServiceError ''unused'')),
      place = (\<lambda>i place_id. Inr (details [''calm''] ''https://maps/x'')),
      generate_vibe = (\<lambda>i prompt.
        if i = 4 then Inl (ServiceError ''quota'')
        else Inr [\<lparr>fc_name = ''analyze_spot_vibe'',
                   fc_args = analysis_args
                     (PFloat (if i = 1 then 11 else if i = 2 then 7.5 else 7))\<rparr>]),
      generate_itinerary = (\<lambda>prompt.
        Inr [\<lparr>fc_name = ''generate_itinerary'', fc_args = one_spot_args\<rparr>]),
      types_Schema_from_dict = (\<lambda>schema_class. Inl AttributeError),
      types_Tool = (\<lambda>function_name. Inr ()),
      types_ToolConfig = (\<lambda>function_name. Inl AttributeError),
      str_as_int = decimal\<rparr>"

subsection \<open>Three scored candidates\<close>

text \<open>The analysis that \<open>analysis_args\<close> describes, with a given score.\<close>

definition analysis :: "int \<Rightarrow> SpotVibeAnalysis" where
  "analysis score =
     \<lparr>vibe_adjectives = [''cozy'', ''quiet'', ''vintage''],
      unique_features = [''old books''],
      vibe_match_score = score,
      vibe_match_justification = ''reviews praise the calm''\<rparr>"

definition scored_spot :: "string \<Rightarrow> string \<Rightarrow> dict" where
  "scored_spot name place_id =
     setitem (setitem (spot name place_id) ''url'' (PStr ''https://maps/x''))
       ''vibe_analysis'' (PDict (model_dump (analysis 7)))"

definition three_spots :: "dict list" where
  "three_spots =
     [scored_spot ''Bertrand'' ''p2'', scored_spot ''Simao'' ''p1'', scored_spot ''Fabrica'' ''p4'']"

subsection \<open>The Lisbon candidates in stage 2\<close>



section \<open>Dictionaries\<close>

lemma map_of_setitem: "map_of (setitem d k v) = (map_of d)(k \<mapsto> v)"
  by (induction d) (auto simp: fun_eq_iff)

lemma getitem_setitem: "getitem (setitem d k v) k' = (if k' = k then Inr v else getitem d k')"
  by (simp add: getitem_def map_of_setitem)

lemma has_key_setitem: "has_key (setitem d k v) k' \<longleftrightarrow> k' = k \<or> has_key d k'"
  by (simp add: has_key_def map_of_setitem)

lemma has_key_getitem: "has_key d k \<Longrightarrow> \<exists>v. getitem d k = Inr v"
  by (auto simp: has_key_def getitem_def)

lemma fetch_details_None:
  "fetched w i (heap s a) = None \<Longrightarrow>
   \<exists>s' e. fetch_details w i a s = (s', Inl e) \<and> heap s' = heap s \<and>
          analyzed_spots s' = analyzed_spots s"
  by (auto simp: fetched_def fetch_details_def emit_def Let_def split: sum.splits)

lemma fetch_details_Some:
  "fetched w i (heap s a) = Some (rv, u) \<Longrightarrow>
   \<exists>s'. fetch_details w i a s = (s', Inr rv) \<and>
        heap s' = (heap s)(a := setitem (heap s a) ''url'' u) \<and>
        analyzed_spots s' = analyzed_spots s"
  by (auto simp: fetched_def fetch_details_def emit_def store_def Let_def split: sum.splits)

section \<open>One pass of the loop of agent 2\<close>

lemma heap_emit [simp]: "heap (emit ev s) = heap s"
  and analyzed_emit [simp]: "analyzed_spots (emit ev s) = analyzed_spots s"
  by (simp_all add: emit_def)

lemma heap_store [simp]: "heap (store a k v s) = (heap s)(a := setitem (heap s a) k v)"
  and analyzed_store [simp]: "analyzed_spots (store a k v s) = analyzed_spots s"
  by (simp_all add: store_def)

lemma write_name_ok:
  "has_key (heap s a) ''name'' \<Longrightarrow> \<exists>n. write_name a msg s = (emit (msg n) s, Inr ())"
  by (auto simp: write_name_def dest!: has_key_getitem)

lemma record_analysis_char:
  assumes "has_key (heap s a) ''name''"
  shows "\<exists>s' r. record_analysis w a parts s = (s', r) \<and>
      (case parts of
         [] \<Rightarrow> heap s' = heap s \<and> analyzed_spots s' = analyzed_spots s
       | fc # _ \<Rightarrow>
           (case (if fc_name fc = ''analyze_spot_vibe''
                  then validate_SpotVibeAnalysis (str_as_int w) (fc_args fc) else Inl ValidationError) of
              Inl e \<Rightarrow> heap s' = heap s \<and> analyzed_spots s' = analyzed_spots s
            | Inr va \<Rightarrow>
                heap s' = (heap s)(a := setitem (heap s a) ''vibe_analysis'' (PDict (model_dump va))) \<and>
                analyzed_spots s' = analyzed_spots s @ [a]))"
proof (cases parts)
  case Nil
  then show ?thesis by (simp add: record_analysis_def)
next
  case (Cons fc ps)
  show ?thesis
  proof (cases "fc_name fc = ''analyze_spot_vibe''")
    case False
    let ?msg = "\<lambda>name. StWrite [T ''    - Skipping '', V name,
                                T '' (Gemini did not return valid analysis).'']"
    from write_name_ok [OF assms, of ?msg] obtain n
      where "write_name a ?msg s = (emit (?msg n) s, Inr ())" by blast
    with Cons False show ?thesis by (simp add: record_analysis_def)
  next
    case True
    show ?thesis
    proof (cases "validate_SpotVibeAnalysis (str_as_int w) (fc_args fc)")
      case (Inl e)
      with Cons True show ?thesis by (simp add: record_analysis_def)
    next
      case (Inr va)
      let ?s1 = "store a ''vibe_analysis'' (PDict (model_dump va)) s"
      let ?s2 = "?s1\<lparr>analyzed_spots := analyzed_spots ?s1 @ [a]\<rparr>"
      let ?msg = "\<lambda>name. StWrite [T ''    - Analyzed '', V name, T ''. Vibe Score: '',
                                  I (vibe_match_score va), T ''/10'']"
      have "has_key (heap ?s2 a) ''name''"
        using assms by (simp add: has_key_setitem)
      from write_name_ok [OF this, of ?msg] obtain n
        where "write_name a ?msg ?s2 = (emit (?msg n) ?s2, Inr ())" by blast
      with Cons True Inr show ?thesis
        by (simp add: record_analysis_def Let_def)
    qed
  qed
qed


lemma try_body_char:
  assumes nm: "has_key (heap s a) ''name''"
  shows "\<exists>s' r. try_body w uv i a s = (s', r) \<and>
           heap s' = (heap s)(a := step_dict w uv i (heap s a)) \<and>
           analyzed_spots s' =
             analyzed_spots s @ (if scoring w uv i (heap s a) = None then [] else [a])"
proof (cases "fetched w i (heap s a)")
  case None
  from fetch_details_None [OF None] obtain s1 e
    where "fetch_details w i a s = (s1, Inl e)" "heap s1 = heap s"
      "analyzed_spots s1 = analyzed_spots s" by blast
  with None show ?thesis
    by (simp add: try_body_def step_dict_def scoring_def)
next
  case (Some ru)
  obtain rv u where ru: "ru = (rv, u)" by (cases ru)
  from fetch_details_Some [of w i s a rv u] Some ru obtain s1
    where f: "fetch_details w i a s = (s1, Inr rv)"
      and h1: "heap s1 = (heap s)(a := setitem (heap s a) ''url'' u)"
      and a1: "analyzed_spots s1 = analyzed_spots s" by auto
  have nm1: "has_key (heap s1 a) ''name''"
    using nm h1 by (simp add: has_key_setitem)
  have g1: "getitem (heap s1 a) ''name'' = getitem (heap s a) ''name''"
    using h1 by (simp add: getitem_setitem)
  show ?thesis
  proof (cases "truthy rv")
    case False
    let ?msg = "\<lambda>name. StWrite [T ''    - Skipping '', V name, T '' (no reviews found).'']"
    from write_name_ok [OF nm1, of ?msg] obtain n
      where "write_name a ?msg s1 = (emit (?msg n) s1, Inr ())" by blast
    with False f h1 a1 Some ru show ?thesis
      by (simp add: try_body_def step_dict_def scoring_def)
  next
    case True
    let ?pr = "ebind (review_snippets rv) (\<lambda>snippets.
                 ebind (getitem (heap s a) ''name'') (\<lambda>name.
                   Inr (VibePrompt name uv (take 3000 snippets))))"
    have sc: "scoring w uv i (heap s a) =
        (case ebind ?pr (generate_vibe w i) of
           Inl e \<Rightarrow> None
         | Inr [] \<Rightarrow> None
         | Inr (fc # _) \<Rightarrow>
             if fc_name fc = ''analyze_spot_vibe''
             then (case validate_SpotVibeAnalysis (str_as_int w) (fc_args fc) of
                     Inl e \<Rightarrow> None | Inr va \<Rightarrow> Some va)
             else None)"
      using Some ru True
      by (auto simp add: scoring_def ebind_def split: sum.splits)
    show ?thesis
    proof (cases ?pr)
      case (Inl e)
      with f h1 a1 g1 True sc Some ru show ?thesis
        by (simp add: try_body_def step_dict_def ebind_def)
    next
      case (Inr prompt)
      show ?thesis
      proof (cases "generate_vibe w i prompt")
        case (Inl e)
        with Inr f h1 a1 g1 True sc Some ru show ?thesis
          by (simp add: try_body_def step_dict_def ebind_def Let_def)
      next
        case gen: (Inr parts)
        let ?s2 = "emit (GenerateContent prompt) s1"
        have "has_key (heap ?s2 a) ''name''" using nm1 by simp
        from record_analysis_char [OF this, of w parts] obtain s' r
          where ra: "record_analysis w a parts ?s2 = (s', r)"
            and eff: "(case parts of
               [] \<Rightarrow> heap s' = heap ?s2 \<and> analyzed_spots s' = analyzed_spots ?s2
             | fc # _ \<Rightarrow>
               (case (if fc_name fc = ''analyze_spot_vibe''
                      then validate_SpotVibeAnalysis (str_as_int w) (fc_args fc) else Inl ValidationError) of
                  Inl e \<Rightarrow> heap s' = heap ?s2 \<and> analyzed_spots s' = analyzed_spots ?s2
                | Inr va \<Rightarrow>
                    heap s' = (heap ?s2)(a := setitem (heap ?s2 a) ''vibe_analysis''
                                                (PDict (model_dump va))) \<and>
                    analyzed_spots s' = analyzed_spots ?s2 @ [a]))" by blast
        have tb: "try_body w uv i a s = (s', r)"
          using f True Inr g1 gen ra by (simp add: try_body_def Let_def)
        have sc': "scoring w uv i (heap s a) =
            (case parts of [] \<Rightarrow> None
             | fc # _ \<Rightarrow>
               if fc_name fc = ''analyze_spot_vibe''
               then (case validate_SpotVibeAnalysis (str_as_int w) (fc_args fc) of
                       Inl e \<Rightarrow> None | Inr va \<Rightarrow> Some va)
               else None)"
          using sc Inr gen by (simp add: ebind_def)
        have "heap s' = (heap s)(a := step_dict w uv i (heap s a)) \<and>
              analyzed_spots s' =
                analyzed_spots s @ (if scoring w uv i (heap s a) = None then [] else [a])"
          using eff sc' h1 a1 Some ru
          by (auto simp: step_dict_def split: list.splits sum.splits if_splits)
        with tb show ?thesis by blast
      qed
    qed
  qed
qed

lemma step_dict_name: "has_key (step_dict w uv i d) ''name'' = has_key d ''name''"
  by (simp add: step_dict_def has_key_setitem split: option.splits)

lemma loop_step_char:
  assumes nm: "has_key (heap s a) ''name''"
  shows "\<exists>s'. loop_step w uv i a s = (s', Inr ()) \<and>
           heap s' = (heap s)(a := step_dict w uv i (heap s a)) \<and>
           analyzed_spots s' =
             analyzed_spots s @ (if scoring w uv i (heap s a) = None then [] else [a])"
proof -
  from try_body_char [OF nm, of w uv i] obtain s1 r
    where tb: "try_body w uv i a s = (s1, r)"
      and h1: "heap s1 = (heap s)(a := step_dict w uv i (heap s a))"
      and a1: "analyzed_spots s1 =
             analyzed_spots s @ (if scoring w uv i (heap s a) = None then [] else [a])"
    by blast
  show ?thesis
  proof (cases r)
    case (Inr u)
    with tb h1 a1 show ?thesis by (simp add: loop_step_def)
  next
    case (Inl e)
    let ?msg = "\<lambda>name. StWarning [T ''Error analyzing '', V name, T '': '', E e]"
    have "has_key (heap s1 a) ''name''" using nm h1 by (simp add: step_dict_name)
    from write_name_ok [OF this, of ?msg] obtain n
      where "write_name a ?msg s1 = (emit (?msg n) s1, Inr ())" by blast
    with Inl tb h1 a1 show ?thesis by (simp add: loop_step_def)
  qed
qed


section \<open>What the loop keeps\<close>

lemma extends_refl: "extends d d"
  by (simp add: extends_def)

lemma extends_trans: "extends d d' \<Longrightarrow> extends d' d'' \<Longrightarrow> extends d d''"
  by (simp add: extends_def)

lemma getitem_extends:
  "extends d d' \<Longrightarrow> k \<noteq> ''url'' \<Longrightarrow> k \<noteq> ''vibe_analysis'' \<Longrightarrow> getitem d' k = getitem d k"
  by (simp add: extends_def getitem_def)

lemma has_key_extends:
  "extends d d' \<Longrightarrow> k \<noteq> ''vibe_analysis'' \<Longrightarrow> has_key d k \<Longrightarrow> has_key d' k"
  by (cases "k = ''url''") (auto simp: extends_def has_key_def)

lemma fetched_extends: "extends d d' \<Longrightarrow> fetched w i d' = fetched w i d"
  by (simp add: fetched_def getitem_extends)

lemma scoring_extends:
  assumes "extends d d'"
  shows "scoring w uv i d' = scoring w uv i d"
proof -
  have nm: "getitem d' ''name'' = getitem d ''name''"
    using assms by (simp add: getitem_extends)
  show ?thesis
    by (simp only: scoring_def fetched_extends [OF assms] nm)
qed

lemma analysed_setitem_url: "analysed d \<Longrightarrow> analysed (setitem d ''url'' u)"
  by (simp add: analysed_def getitem_setitem)

lemma analysed_setitem_va: "analysed (setitem d ''vibe_analysis'' (PDict (model_dump va)))"
  by (auto simp add: analysed_def getitem_setitem)

lemma extends_step_dict: "extends d (step_dict w uv i d)"
  by (auto simp: extends_def step_dict_def map_of_setitem has_key_setitem
      analysed_setitem_url analysed_setitem_va split: option.splits)

lemma step_dict_url: "fetched w i d \<noteq> None \<Longrightarrow> has_key (step_dict w uv i d) ''url''"
  by (auto simp: step_dict_def has_key_setitem split: option.splits)

lemma step_dict_analysed: "scoring w uv i d \<noteq> None \<Longrightarrow> analysed (step_dict w uv i d)"
  by (auto simp: step_dict_def scoring_def analysed_setitem_va split: option.splits)

section \<open>The whole loop\<close>

lemma scored_Nil: "scored w uv i h [] = []"
  by (simp add: scored_def)

lemma scored_Cons:
  "scored w uv i h (a # as) =
     (if scoring w uv i (h a) = None then [] else [a]) @ scored w uv (Suc i) h as"
  by (simp add: scored_def)

lemma scored_cong:
  assumes "\<And>b. extends (h b) (h' b)"
  shows "scored w uv i h' spots = scored w uv i h spots"
proof (induction spots arbitrary: i)
  case Nil
  show ?case by (simp add: scored_Nil)
next
  case (Cons a as)
  have "scoring w uv i (h' a) = scoring w uv i (h a)"
    by (rule scoring_extends) (rule assms)
  with Cons show ?case by (simp add: scored_Cons)
qed

lemma set_scored: "set (scored w uv i h spots) \<subseteq> set spots"
  by (induction spots arbitrary: i) (auto simp: scored_Nil scored_Cons)

lemma scored_nth:
  "j < length spots \<Longrightarrow> scoring w uv (i + j) (h (spots ! j)) \<noteq> None \<Longrightarrow>
   spots ! j \<in> set (scored w uv i h spots)"
proof (induction spots arbitrary: i j)
  case Nil
  then show ?case by simp
next
  case (Cons a as)
  show ?case
  proof (cases j)
    case 0
    with Cons.prems show ?thesis by (auto simp add: scored_Cons)
  next
    case (Suc j')
    with Cons.prems Cons.IH [of j' "Suc i"] show ?thesis by (auto simp add: scored_Cons)
  qed
qed

lemma scored_set_iff:
  "b \<in> set (scored w uv i h spots) \<longleftrightarrow>
   (\<exists>j<length spots. spots ! j = b \<and> scoring w uv (i + j) (h b) \<noteq> None)"
proof (induction spots arbitrary: i)
  case Nil
  then show ?case by (simp add: scored_Nil)
next
  case (Cons a as)
  have "(\<exists>j<length (a # as). (a # as) ! j = b \<and> scoring w uv (i + j) (h b) \<noteq> None) \<longleftrightarrow>
        (a = b \<and> scoring w uv i (h b) \<noteq> None) \<or>
        (\<exists>j<length as. as ! j = b \<and> scoring w uv (Suc i + j) (h b) \<noteq> None)"
    by (auto simp: less_Suc_eq_0_disj)
  with Cons [of "Suc i"] show ?case by (auto simp: scored_Cons)
qed

lemma agent2_loop_char:
  assumes "\<forall>a\<in>set spots. has_key (heap s a) ''name''"
  shows "\<exists>s'. agent2_loop w uv i spots s = (s', Inr ()) \<and>
           analyzed_spots s' = analyzed_spots s @ scored w uv i (heap s) spots \<and>
           (\<forall>b. extends (heap s b) (heap s' b)) \<and>
           (\<forall>b. b \<notin> set spots \<longrightarrow> heap s' b = heap s b) \<and>
           (\<forall>b\<in>set (scored w uv i (heap s) spots). analysed (heap s' b)) \<and>
           (\<forall>j<length spots. fetched w (i + j) (heap s (spots ! j)) \<noteq> None \<longrightarrow>
                has_key (heap s' (spots ! j)) ''url'') \<and>
           (distinct spots \<longrightarrow>
              (\<forall>j<length spots. heap s' (spots ! j) = step_dict w uv (i + j) (heap s (spots ! j))))"
  using assms
proof (induction spots arbitrary: s i)
  case Nil
  then show ?case by (simp add: scored_Nil extends_refl)
next
  case (Cons a as)
  from Cons.prems have nm: "has_key (heap s a) ''name''" by simp
  from loop_step_char [OF nm, of w uv i] obtain s1
    where st: "loop_step w uv i a s = (s1, Inr ())"
      and h1: "heap s1 = (heap s)(a := step_dict w uv i (heap s a))"
      and a1: "analyzed_spots s1 =
                 analyzed_spots s @ (if scoring w uv i (heap s a) = None then [] else [a])"
    by blast
  have ext1: "extends (heap s b) (heap s1 b)" for b
    using h1 by (simp add: extends_step_dict extends_refl)
  have "\<forall>b\<in>set as. has_key (heap s1 b) ''name''"
    using Cons.prems ext1 by (auto intro: has_key_extends)
  from Cons.IH [OF this, of "Suc i"] obtain s'
    where lp: "agent2_loop w uv (Suc i) as s1 = (s', Inr ())"
      and an: "analyzed_spots s' = analyzed_spots s1 @ scored w uv (Suc i) (heap s1) as"
      and ext: "\<forall>b. extends (heap s1 b) (heap s' b)"
      and frame: "\<forall>b. b \<notin> set as \<longrightarrow> heap s' b = heap s1 b"
      and ana: "\<forall>b\<in>set (scored w uv (Suc i) (heap s1) as). analysed (heap s' b)"
      and url: "\<forall>j<length as. fetched w (Suc i + j) (heap s1 (as ! j)) \<noteq> None \<longrightarrow>
                  has_key (heap s' (as ! j)) ''url''"
      and dst: "distinct as \<longrightarrow>
              (\<forall>j<length as. heap s' (as ! j) = step_dict w uv (Suc i + j) (heap s1 (as ! j)))"
    by blast
  have sc1: "scored w uv (Suc i) (heap s1) as = scored w uv (Suc i) (heap s) as"
    by (rule scored_cong) (rule ext1)
  have c1: "agent2_loop w uv i (a # as) s = (s', Inr ())"
    using st lp by simp
  have c2: "analyzed_spots s' = analyzed_spots s @ scored w uv i (heap s) (a # as)"
    using an a1 sc1 by (simp add: scored_Cons)
  have c3: "\<forall>b. extends (heap s b) (heap s' b)"
    using ext1 ext by (blast intro: extends_trans)
  have c4: "\<forall>b. b \<notin> set (a # as) \<longrightarrow> heap s' b = heap s b"
    using frame h1 by simp
  have c5: "\<forall>b\<in>set (scored w uv i (heap s) (a # as)). analysed (heap s' b)"
  proof
    fix b assume "b \<in> set (scored w uv i (heap s) (a # as))"
    then consider "b = a" "scoring w uv i (heap s a) \<noteq> None"
      | "b \<in> set (scored w uv (Suc i) (heap s) as)"
      by (auto simp: scored_Cons split: if_splits)
    then show "analysed (heap s' b)"
    proof cases
      case 1
      then have "analysed (heap s1 a)" using h1 by (simp add: step_dict_analysed)
      with ext 1 show ?thesis by (auto simp: extends_def)
    next
      case 2
      with ana sc1 show ?thesis by simp
    qed
  qed
  have c6: "\<forall>j<length (a # as). fetched w (i + j) (heap s ((a # as) ! j)) \<noteq> None \<longrightarrow>
                has_key (heap s' ((a # as) ! j)) ''url''"
  proof (intro allI impI)
    fix j assume j: "j < length (a # as)"
      and f: "fetched w (i + j) (heap s ((a # as) ! j)) \<noteq> None"
    show "has_key (heap s' ((a # as) ! j)) ''url''"
    proof (cases j)
      case 0
      with f have "has_key (heap s1 a) ''url''" using h1 by (simp add: step_dict_url)
      with ext 0 show ?thesis by (auto simp: extends_def)
    next
      case (Suc j')
      with f have "fetched w (Suc i + j') (heap s1 (as ! j')) \<noteq> None"
        by (simp add: fetched_extends [OF ext1])
      with url j Suc show ?thesis by simp
    qed
  qed
  have c7: "distinct (a # as) \<longrightarrow>
      (\<forall>j<length (a # as). heap s' ((a # as) ! j) =
          step_dict w uv (i + j) (heap s ((a # as) ! j)))"
  proof (intro allI impI)
    fix j assume d: "distinct (a # as)" and j: "j < length (a # as)"
    show "heap s' ((a # as) ! j) = step_dict w uv (i + j) (heap s ((a # as) ! j))"
    proof (cases j)
      case 0
      with d frame h1 show ?thesis by simp
    next
      case (Suc j')
      with j d have "as ! j' \<noteq> a" by auto
      with Suc j d dst h1 show ?thesis by simp
    qed
  qed
  from c1 c2 c3 c4 c5 c6 c7 show ?case by blast
qed


section \<open>The sort\<close>

lemma sort_key_of_model_dump:
  "getitem d ''vibe_analysis'' = Inr (PDict (model_dump va)) \<Longrightarrow>
   sort_key_of d = Inr (of_int (vibe_match_score va))"
  by (simp add: sort_key_of_def ebind_def model_dump_def getitem_def)

lemma analysed_key: "analysed d \<Longrightarrow> \<exists>n::int. sort_key_of d = Inr (of_int n)"
  by (auto simp: analysed_def dest: sort_key_of_model_dump)

lemma sort_keys_ok:
  "\<forall>a\<in>set xs. analysed (h a) \<Longrightarrow> sort_keys h xs = Inr (map (the_key h) xs)"
proof (induction xs)
  case Nil
  show ?case by simp
next
  case (Cons a as)
  from Cons.prems obtain n :: int where "sort_key_of (h a) = Inr (of_int n)"
    using analysed_key by auto
  with Cons show ?case by (simp add: ebind_def the_key_def)
qed

lemma insort_key_decorated:
  "insort_key fst (k a, a) (map (\<lambda>b. (k b, b)) ys) = map (\<lambda>b. (k b, b)) (insort_key k a ys)"
  by (induction ys) simp_all

lemma sort_key_decorated:
  "sort_key fst (map (\<lambda>b. (k b, b)) ys) = map (\<lambda>b. (k b, b)) (sort_key k ys)"
  by (induction ys) (simp_all add: insort_key_decorated)

lemma zip_decorate: "zip (map k xs) xs = map (\<lambda>b. (k b, b)) xs"
  by (induction xs) simp_all

lemma sort_reverse_ok:
  assumes "\<forall>a\<in>set xs. analysed (h a)"
  shows "sort_reverse h xs = Inr (sorted_desc h xs)"
proof -
  have e1: "rev (zip (map (the_key h) xs) xs) = map (\<lambda>b. (the_key h b, b)) (rev xs)"
    by (simp add: zip_decorate rev_map)
  have e2: "sort_key fst (map (\<lambda>b. (the_key h b, b)) (rev xs)) =
            map (\<lambda>b. (the_key h b, b)) (sort_key (the_key h) (rev xs))"
    by (rule sort_key_decorated)
  have "map snd (rev (sort_key fst (rev (zip (map (the_key h) xs) xs)))) =
        rev (sort_key (the_key h) (rev xs))"
    unfolding e1 e2 by (simp add: rev_map comp_def)
  with sort_keys_ok [OF assms] show ?thesis
    by (simp add: sort_reverse_def ebind_def sorted_desc_def)
qed

lemma set_sorted_desc: "set (sorted_desc h xs) = set xs"
  by (simp add: sorted_desc_def)

lemma mset_sorted_desc: "mset (sorted_desc h xs) = mset xs"
  by (simp add: sorted_desc_def)

lemma sorted_desc_sorted:
  "sorted_wrt (\<lambda>a b. the_key h a \<ge> the_key h b) (sorted_desc h xs)"
proof -
  have "sorted (map (the_key h) (sort_key (the_key h) (rev xs)))"
    by (rule sorted_sort_key)
  then show ?thesis
    by (simp add: sorted_desc_def sorted_wrt_rev sorted_map)
qed

lemma sorted_desc_stable:
  "filter (\<lambda>a. the_key h a = c) (sorted_desc h xs) = filter (\<lambda>a. the_key h a = c) xs"
  by (simp add: sorted_desc_def rev_filter [symmetric] sort_key_stable)

section \<open>Agent 2 as a whole\<close>

text \<open>
  What the rest of agent 2 does once the library calls of lines 117-133 have returned:
  for candidates that carry a name it returns the scored candidates in stable descending
  order of their scores, having changed no object but the candidates.
\<close>

lemma agent2_char:
  assumes nm: "\<forall>a\<in>set spots. has_key (h a) ''name''"
    and ts: "tool_setup w ''SpotVibeAnalysis'' ''analyze_spot_vibe'' = Inr u"
  shows "\<exists>s. agent2_analyze_vibe w h spots uv =
               (s, Inr (sorted_desc (heap s) (scored w uv 0 h spots))) \<and>
           (\<forall>b. extends (h b) (heap s b)) \<and>
           (\<forall>b. b \<notin> set spots \<longrightarrow> heap s b = h b) \<and>
           (\<forall>b\<in>set (scored w uv 0 h spots). analysed (heap s b)) \<and>
           (\<forall>j<length spots. fetched w j (h (spots ! j)) \<noteq> None \<longrightarrow>
                has_key (heap s (spots ! j)) ''url'') \<and>
           (distinct spots \<longrightarrow>
              (\<forall>j<length spots. heap s (spots ! j) = step_dict w uv j (h (spots ! j))))"
proof -
  let ?s0 = "\<lparr>heap = h, analyzed_spots = [],
              trace = [StWrite [T ''**Agent 2:** Analyzing vibes for '',
                                N (length spots), T '' spots...'']]\<rparr>"
  have "\<forall>a\<in>set spots. has_key (heap ?s0 a) ''name''" using nm by simp
  from agent2_loop_char [OF this, of w uv 0] obtain s1
    where lp: "agent2_loop w uv 0 spots ?s0 = (s1, Inr ())"
      and an: "analyzed_spots s1 = scored w uv 0 h spots"
      and ext: "\<forall>b. extends (h b) (heap s1 b)"
      and frame: "\<forall>b. b \<notin> set spots \<longrightarrow> heap s1 b = h b"
      and ana: "\<forall>b\<in>set (scored w uv 0 h spots). analysed (heap s1 b)"
      and url: "\<forall>j<length spots. fetched w j (h (spots ! j)) \<noteq> None \<longrightarrow>
                  has_key (heap s1 (spots ! j)) ''url''"
      and dst: "distinct spots \<longrightarrow>
              (\<forall>j<length spots. heap s1 (spots ! j) = step_dict w uv j (h (spots ! j)))"
    by auto
  let ?out = "sorted_desc (heap s1) (scored w uv 0 h spots)"
  have srt: "sort_reverse (heap s1) (analyzed_spots s1) = Inr ?out"
    using ana an by (simp add: sort_reverse_ok)
  let ?s2 = "s1\<lparr>analyzed_spots := ?out\<rparr>"
  have "\<exists>name. top_spot (heap ?s2) ?out = Inr name"
  proof (cases ?out)
    case Nil
    then show ?thesis by (simp add: top_spot_def)
  next
    case (Cons a as)
    then have "a \<in> set (scored w uv 0 h spots)"
      using set_sorted_desc [of "heap s1" "scored w uv 0 h spots"] by auto
    with set_scored have "a \<in> set spots" by blast
    with nm ext have "has_key (heap s1 a) ''name''"
      by (auto intro: has_key_extends)
    with Cons show ?thesis by (auto simp: top_spot_def dest: has_key_getitem)
  qed
  then obtain name where top: "top_spot (heap ?s2) ?out = Inr name" by blast
  let ?s3 = "emit (StWrite [T ''**Agent 2:** Finished analysis. Top spot: '', V name]) ?s2"
  have "agent2_analyze_vibe w h spots uv = (?s3, Inr ?out)"
    using lp srt top ts by (simp add: agent2_analyze_vibe_def Let_def)
  moreover have "heap ?s3 = heap s1" by simp
  ultimately show ?thesis using ext frame ana url dst by metis
qed

section \<open>Agent 1\<close>

lemma num_of_is_num: "is_num v \<Longrightarrow> num_of v = Inr (num v)"
  by (cases v) simp_all

lemma inverse_filter_step:
  assumes "typed_hit p"
  shows "inverse_filter mr mx (p # ps) acc =
         inverse_filter mr mx ps (if eligible mr mx p then acc @ [candidate p] else acc)"
proof -
  from assms obtain kvs where p: "p = PDict kvs" by (cases p) (simp_all add: typed_hit_def)
  have r: "num_of (field p ''rating'' (PInt 0)) = Inr (num (field p ''rating'' (PInt 0)))"
    and c: "num_of (field p ''user_ratings_total'' (PInt 0)) =
            Inr (num (field p ''user_ratings_total'' (PInt 0)))"
    using assms by (simp_all add: typed_hit_def num_of_is_num)
  have pf: "passes_filter mr mx (field p ''rating'' (PInt 0))
              (field p ''user_ratings_total'' (PInt 0)) = Inr (eligible mr mx p)"
    using r c by (auto simp: passes_filter_def ebind_def eligible_def)
  have g: "py_get p k d = Inr (field p k d)" for k d
    using p by simp
  show ?thesis
    unfolding inverse_filter.simps g
    by (simp add: ebind_def pf candidate_def)
qed

lemma inverse_filter_typed:
  "\<forall>p\<in>set ps. typed_hit p \<Longrightarrow>
   inverse_filter mr mx ps acc = Inr (acc @ map candidate (filter (eligible mr mx) ps))"
proof (induction ps arbitrary: acc)
  case Nil
  show ?case by simp
next
  case (Cons p ps)
  then show ?case by (simp add: inverse_filter_step del: inverse_filter.simps)
qed

lemma agent1_typed:
  assumes "search_raw w city query radius_m = (log1, Some raw)"
    and "py_get raw ''results'' (PList []) = Inr (PList hits)"
    and "\<forall>p\<in>set hits. typed_hit p"
  shows "agent1_find_unseen_spots w city query max_reviews min_rating radius_m =
     ([StWrite [T ''**Agent 1:** Searching for '', T query, T '' in '', T city, T ''...'']] @
      log1 @
      [StWrite [T ''**Agent 1:** Found '',
                N (length (filter (eligible min_rating max_reviews) hits)),
                T '' potential unseen spots.'']],
      Inr (map candidate (filter (eligible min_rating max_reviews) hits)))"
  using assms
  by (simp add: agent1_find_unseen_spots_def ebind_def inverse_filter_typed)

text \<open>
  Whatever the hits are, the candidates that agent 1 returns have all four keys, so the
  objects that the run hands to agent 2 carry a name, a rating and a review count.
\<close>

lemma inverse_filter_keys:
  "inverse_filter mr mx ps acc = Inr out \<Longrightarrow> \<forall>c\<in>set acc. full_candidate c \<Longrightarrow>
   \<forall>c\<in>set out. full_candidate c"
proof (induction ps arbitrary: acc)
  case Nil
  then show ?case by simp
next
  case (Cons p ps)
  from Cons.prems(1) obtain name place_id rating review_count ok
    where step: "inverse_filter mr mx ps
             (if ok
              then acc @ [[(''name'', name), (''place_id'', place_id),
                           (''rating'', rating), (''review_count'', review_count)]]
              else acc) = Inr out"
    by (auto simp: ebind_def split: sum.splits)
  have "\<forall>c\<in>set (if ok
              then acc @ [[(''name'', name), (''place_id'', place_id),
                           (''rating'', rating), (''review_count'', review_count)]]
              else acc). full_candidate c"
    using Cons.prems(2) by (simp add: full_candidate_def has_key_def)
  from Cons.IH [OF step this] show ?case .
qed

lemma discovery_candidates_keys:
  assumes "agent1_find_unseen_spots w city query max_reviews min_rating radius_m =
             (log1, Inr unseen_spots)"
  shows "\<forall>a\<in>set [0..<length unseen_spots]. full_candidate (alloc unseen_spots a)"
proof -
  have "\<forall>c\<in>set unseen_spots. full_candidate c"
  proof (cases "search_raw w city query radius_m")
    case (Pair l r)
    show ?thesis
    proof (cases r)
      case None
      with Pair assms show ?thesis by (simp add: agent1_find_unseen_spots_def)
    next
      case (Some raw)
      with Pair assms obtain places
        where "inverse_filter min_rating max_reviews places [] = Inr unseen_spots"
        by (auto simp: agent1_find_unseen_spots_def ebind_def Let_def split: sum.splits)
      from inverse_filter_keys [OF this] show ?thesis by simp
    qed
  qed
  then show ?thesis by (simp add: alloc_def)
qed

section \<open>Agent 3\<close>


section \<open>Discovery\<close>

lemma search_raw_lisbon:
  "search_raw lisbon ''Lisbon'' ''cozy cafe'' 3000 =
     ([Geocode ''Lisbon'', PlacesNearby (PFloat 38.7) (PFloat (-9.1)) 3000 ''cozy cafe''],
      Some (PDict [(''results'', PList lisbon_hits)]))"
  by (simp add: search_raw_def lisbon_def city_center_def ebind_def getitem_def)

lemma lisbon_hits_typed: "\<forall>p\<in>set lisbon_hits. typed_hit p"
  by (simp add: lisbon_hits_def typed_hit_def hit_simao_def hit_brasileira_def
      hit_nameless_def hit_unrated_def hit_fabrica_def)

lemma lisbon_eligible:
  "filter (eligible 4.5 500) lisbon_hits = [hit_simao, hit_nameless, hit_fabrica]"
  by (simp add: lisbon_hits_def eligible_def hit_simao_def hit_brasileira_def
      hit_nameless_def hit_unrated_def hit_fabrica_def)

text \<open>
  Claim C1. When the search returns raw hits (dictionaries whose rating and review count
  are numbers where present), Discovery's output is the list of candidates built from
  exactly the hits with rating \<open>\<ge>\<close> minRating and \<open>0 <\<close> reviewCount \<open>\<le>\<close> maxReviews, an
  absent rating or review count reading as 0, in the order of the raw results.
\<close>

theorem discovery_filters_in_order:
  assumes "search_raw w city query radius_m = (log1, Some raw)"
    and "py_get raw ''results'' (PList []) = Inr (PList hits)"
    and "\<forall>p\<in>set hits. typed_hit p"
  shows "snd (agent1_find_unseen_spots w city query max_reviews min_rating radius_m) =
         Inr (map candidate (filter (eligible min_rating max_reviews) hits))"
  using agent1_typed [OF assms] by simp

text \<open>The Lisbon search: of five hits, the first, third and fifth pass.\<close>

theorem discovery_filters_in_order_witness:
  "search_raw lisbon ''Lisbon'' ''cozy cafe'' 3000 =
     ([Geocode ''Lisbon'', PlacesNearby (PFloat 38.7) (PFloat (-9.1)) 3000 ''cozy cafe''],
      Some (PDict [(''results'', PList lisbon_hits)])) \<and>
   py_get (PDict [(''results'', PList lisbon_hits)]) ''results'' (PList []) =
     Inr (PList lisbon_hits) \<and>
   list_all typed_hit lisbon_hits \<and>
   snd (agent1_find_unseen_spots lisbon ''Lisbon'' ''cozy cafe'' 500 4.5 3000) =
     Inr [candidate hit_simao, candidate hit_nameless, candidate hit_fabrica]"
proof -
  have h2: "py_get (PDict [(''results'', PList lisbon_hits)]) ''results'' (PList []) =
            Inr (PList lisbon_hits)" by simp
  have "snd (agent1_find_unseen_spots lisbon ''Lisbon'' ''cozy cafe'' 500 4.5 3000) =
        Inr [candidate hit_simao, candidate hit_nameless, candidate hit_fabrica]"
    using discovery_filters_in_order [OF search_raw_lisbon h2 lisbon_hits_typed, of 500 "4.5"]
    unfolding lisbon_eligible by simp
  with search_raw_lisbon h2 lisbon_hits_typed show ?thesis by (simp add: list_all_iff)
qed

text \<open>
  Claim C6, as stated, fails: the third hit of the Lisbon search has neither a name nor a
  place id, passes the filter, and becomes a candidate whose name and place id are
  \<^verbatim>\<open>None\<close>.
\<close>

theorem discovery_keeps_nameless_hit:
  "snd (agent1_find_unseen_spots lisbon ''Lisbon'' ''cozy cafe'' 500 4.5 3000) =
     Inr [[(''name'', PStr ''Livraria do Simao''), (''place_id'', PStr ''p1''),
           (''rating'', PFloat 4.8), (''review_count'', PInt 87)],
          [(''name'', PNone), (''place_id'', PNone),
           (''rating'', PFloat 4.9), (''review_count'', PInt 40)],
          [(''name'', PStr ''Fabrica''), (''place_id'', PStr ''p5''),
           (''rating'', PFloat 4.7), (''review_count'', PInt 120)]]"
  by (simp add: agent1_find_unseen_spots_def search_raw_lisbon ebind_def lisbon_hits_def
      passes_filter_def hit_simao_def hit_brasileira_def hit_nameless_def hit_unrated_def
      hit_fabrica_def)

lemma eligible_has_fields:
  assumes "eligible mr mx p" and "0 < mr"
  shows "hit_has p ''rating'' \<and> hit_has p ''user_ratings_total''"
proof (cases p)
  case (PDict kvs)
  with assms show ?thesis
    by (auto simp: eligible_def hit_has_def has_key_def split: option.splits)
qed (use assms in \<open>simp_all add: eligible_def\<close>)

text \<open>
  Claim C6, amended. With a positive minRating, a raw hit that lacks the rating or the
  review count is a non-match: it yields no candidate, and the log has no entry for it
  (the log is the search, then the count of the candidates). A missing name or place id
  does not make a hit a non-match: each hit that passes the filter becomes a candidate
  that carries the hit's name and place id, \<^verbatim>\<open>None\<close> where the hit has none.
\<close>

theorem discovery_missing_fields:
  assumes "search_raw w city query radius_m = (log1, Some raw)"
    and "py_get raw ''results'' (PList []) = Inr (PList hits)"
    and "\<forall>p\<in>set hits. typed_hit p"
    and "0 < min_rating"
  shows "agent1_find_unseen_spots w city query max_reviews min_rating radius_m =
     ([StWrite [T ''**Agent 1:** Searching for '', T query, T '' in '', T city, T ''...'']] @
      log1 @
      [StWrite [T ''**Agent 1:** Found '',
                N (length (filter (eligible min_rating max_reviews) hits)),
                T '' potential unseen spots.'']],
      Inr (map (\<lambda>p. [(''name'', field p ''name'' PNone),
                      (''place_id'', field p ''place_id'' PNone),
                      (''rating'', field p ''rating'' (PInt 0)),
                      (''review_count'', field p ''user_ratings_total'' (PInt 0))])
            (filter (\<lambda>p. hit_has p ''rating'' \<and> hit_has p ''user_ratings_total'' \<and>
                         eligible min_rating max_reviews p) hits)))"
proof -
  have "filter (\<lambda>p. hit_has p ''rating'' \<and> hit_has p ''user_ratings_total'' \<and>
                    eligible min_rating max_reviews p) hits =
        filter (eligible min_rating max_reviews) hits"
    using eligible_has_fields [OF _ assms(4)] by (intro filter_cong) auto
  moreover have "candidate = (\<lambda>p. [(''name'', field p ''name'' PNone),
                      (''place_id'', field p ''place_id'' PNone),
                      (''rating'', field p ''rating'' (PInt 0)),
                      (''review_count'', field p ''user_ratings_total'' (PInt 0))])"
    by (simp add: fun_eq_iff candidate_def)
  ultimately show ?thesis
    using agent1_typed [OF assms(1-3), of max_reviews min_rating] by simp
qed

text \<open>
  The Lisbon search again: the hit without a rating is dropped, the hit without a name is
  kept.
\<close>

theorem discovery_missing_fields_witness:
  "(0::real) < 4.5 \<and> list_all typed_hit lisbon_hits \<and>
   \<not> hit_has hit_unrated ''rating'' \<and> \<not> hit_has hit_nameless ''name'' \<and>
   agent1_find_unseen_spots lisbon ''Lisbon'' ''cozy cafe'' 500 4.5 3000 =
     ([StWrite [T ''**Agent 1:** Searching for '', T ''cozy cafe'', T '' in '', T ''Lisbon'',
                T ''...''],
       Geocode ''Lisbon'', PlacesNearby (PFloat 38.7) (PFloat (-9.1)) 3000 ''cozy cafe'',
       StWrite [T ''**Agent 1:** Found '', N 3, T '' potential unseen spots.'']],
      Inr [[(''name'', PStr ''Livraria do Simao''), (''place_id'', PStr ''p1''),
            (''rating'', PFloat 4.8), (''review_count'', PInt 87)],
           [(''name'', PNone), (''place_id'', PNone),
            (''rating'', PFloat 4.9), (''review_count'', PInt 40)],
           [(''name'', PStr ''Fabrica''), (''place_id'', PStr ''p5''),
            (''rating'', PFloat 4.7), (''review_count'', PInt 120)]])"
proof -
  have h2: "py_get (PDict [(''results'', PList lisbon_hits)]) ''results'' (PList []) =
            Inr (PList lisbon_hits)" by simp
  have h4: "(0::real) < 4.5" by simp
  have f: "filter (\<lambda>p. hit_has p ''rating'' \<and> hit_has p ''user_ratings_total'' \<and>
                       eligible 4.5 500 p) lisbon_hits = [hit_simao, hit_nameless, hit_fabrica]"
    by (simp add: lisbon_hits_def eligible_def hit_has_def has_key_def hit_simao_def
        hit_brasileira_def hit_nameless_def hit_unrated_def hit_fabrica_def)
  have u: "\<not> hit_has hit_unrated ''rating''" "\<not> hit_has hit_nameless ''name''"
    by (simp_all add: hit_has_def has_key_def hit_unrated_def hit_nameless_def)
  have "agent1_find_unseen_spots lisbon ''Lisbon'' ''cozy cafe'' 500 4.5 3000 =
     ([StWrite [T ''**Agent 1:** Searching for '', T ''cozy cafe'', T '' in '', T ''Lisbon'',
                T ''...''],
       Geocode ''Lisbon'', PlacesNearby (PFloat 38.7) (PFloat (-9.1)) 3000 ''cozy cafe'',
       StWrite [T ''**Agent 1:** Found '', N 3, T '' potential unseen spots.'']],
      Inr [[(''name'', PStr ''Livraria do Simao''), (''place_id'', PStr ''p1''),
            (''rating'', PFloat 4.8), (''review_count'', PInt 87)],
           [(''name'', PNone), (''place_id'', PNone),
            (''rating'', PFloat 4.9), (''review_count'', PInt 40)],
           [(''name'', PStr ''Fabrica''), (''place_id'', PStr ''p5''),
            (''rating'', PFloat 4.7), (''review_count'', PInt 120)]])"
    using discovery_missing_fields [OF search_raw_lisbon h2 lisbon_hits_typed h4, of 500]
    unfolding f lisbon_eligible
    by (simp add: hit_simao_def hit_nameless_def hit_fabrica_def)
  with h4 lisbon_hits_typed u show ?thesis by (simp add: list_all_iff)
qed

section \<open>The composer and the run button\<close>

text \<open>
  Claim C7. For every city and vibe, agent 3 called with an empty sequence returns
  \<^verbatim>\<open>None\<close> at once: its log is the opening message alone and holds no model
  invocation.
\<close>

theorem composer_empty_input:
  "agent3_generate_narrative w [] city vibe =
     ([StWrite [T ''**Agent 3:** Generating final narrative for '', N 0, T '' spots...'']],
      Inr None) \<and>
   (\<forall>prompt. GenerateContent prompt \<notin> set (fst (agent3_generate_narrative w [] city vibe)))"
  by (simp add: agent3_generate_narrative_def)

text \<open>
  Claim C8. When the button is pressed with an empty city or an empty vibe, the run
  consists of the validation error alone: no stage writes its opening message and no
  external call is made.
\<close>

theorem run_rejects_empty_input:
  assumes "city_input = [] \<or> vibe_input = []"
  shows "main_content w True city_input vibe_input min_rating_input max_reviews_input =
           ([StError [T ''Please enter a City and a Vibe.'']], Inr ())"
  using assms by (simp add: main_content_def)

text \<open>A run with an empty city.\<close>

theorem run_rejects_empty_input_witness:
  "('''' = ([] :: string) \<or> ''cozy cafe'' = []) \<and>
   main_content lisbon True '''' ''cozy cafe'' 4.5 500 =
     ([StError [T ''Please enter a City and a Vibe.'']], Inr ())"
proof -
  have h: "'''' = ([] :: string) \<or> ''cozy cafe'' = []" by simp
  from run_rejects_empty_input [OF h, of lisbon "4.5" 500] h show ?thesis by blast
qed

section \<open>The library calls before the loop\<close>

text \<open>
  When one of the library calls of lines 117-133 raises, agent 2 ends there: the
  exception leaves the function, no candidate has been looked at, no object has been
  changed, and the log holds the opening message alone.
\<close>

lemma agent2_setup_raises:
  assumes "tool_setup w ''SpotVibeAnalysis'' ''analyze_spot_vibe'' = Inl e"
  shows "agent2_analyze_vibe w h spots user_vibe =
     (\<lparr>heap = h, analyzed_spots = [],
       trace = [StWrite [T ''**Agent 2:** Analyzing vibes for '', N (length spots),
                         T '' spots...'']]\<rparr>,
      Inl e)"
  using assms by (simp add: agent2_analyze_vibe_def)

text \<open>
  Agent 3 likewise: on a non-empty input whose summaries can be built, an exception of
  the library calls of lines 221-236 leaves the function before the model is called.
\<close>

lemma agent3_setup_raises:
  assumes "top_spots \<noteq> []"
    and "spot_data_summary top_spots [] = Inr summaries"
    and "tool_setup w ''FinalItinerary'' ''generate_itinerary'' = Inl e"
  shows "agent3_generate_narrative w top_spots city vibe =
     ([StWrite [T ''**Agent 3:** Generating final narrative for '', N (length top_spots),
                T '' spots...'']],
      Inl e)"
  using assms by (simp add: agent3_generate_narrative_def)

lemma reviewers_setup: "tool_setup reviewers schema_class function_name = Inl AttributeError"
  by (simp add: tool_setup_def reviewers_def ebind_def)


lemma three_spots_raise:
  "agent3_generate_narrative reviewers three_spots ''Lisbon'' ''cozy'' =
     ([StWrite [T ''**Agent 3:** Generating final narrative for '', N 3, T '' spots...'']],
      Inl AttributeError)"
  by (simp add: agent3_generate_narrative_def reviewers_setup three_spots_def
      scored_spot_def spot_def analysis_def spot_summary_def model_dump_def getitem_def
      ebind_def)

section \<open>The vibe scorer\<close>

lemma reviewers_scored:
  "scored reviewers ''cozy'' 0 five_spots [0, 1, 2, 3, 4] = [0, 1, 3]"
  by (simp add: scored_def scoring_def fetched_def getitem_def ebind_def
      review_snippets_def validate_SpotVibeAnalysis_def required_def
      reviewers_def five_spots_def alloc_def spot_def details_def analysis_args_def)

text \<open>
  Claim C2. The claim is that agent 2 returns the candidates for which scoring succeeded,
  sorted by score. The code does not: in the second sample run the services would score
  the candidates at positions 0, 1 and 3, and agent 2 returns no sequence at all; it
  ends in the \<^verbatim>\<open>AttributeError\<close> of line 117.
\<close>

theorem vibe_scorer_returns_no_sequence:
  "scored reviewers ''cozy'' 0 five_spots [0, 1, 2, 3, 4] = [0, 1, 3] \<and>
   snd (agent2_analyze_vibe reviewers five_spots [0, 1, 2, 3, 4] ''cozy'') =
     Inl AttributeError"
proof (rule conjI)
  show "scored reviewers ''cozy'' 0 five_spots [0, 1, 2, 3, 4] = [0, 1, 3]"
    by (rule reviewers_scored)
  show "snd (agent2_analyze_vibe reviewers five_spots [0, 1, 2, 3, 4] ''cozy'') =
          Inl AttributeError"
    by (simp add: agent2_setup_raises [OF reviewers_setup])
qed

text \<open>
  Claim C5. The claim is that no failure keeps the stage from processing the other
  candidates and returning their results. The code ends before the first candidate:
  whenever \<^verbatim>\<open>types.Schema.from_dict\<close> raises, agent 2 raises the same exception for every
  list of candidates and every behaviour of the services, with the opening message as
  its whole log and every object as it was.
\<close>

theorem vibe_scorer_aborts_before_the_loop:
  assumes "types_Schema_from_dict w ''SpotVibeAnalysis'' = Inl e"
  shows "agent2_analyze_vibe w h spots user_vibe =
     (\<lparr>heap = h, analyzed_spots = [],
       trace = [StWrite [T ''**Agent 2:** Analyzing vibes for '', N (length spots),
                         T '' spots...'']]\<rparr>,
      Inl e)"
proof -
  from assms have "tool_setup w ''SpotVibeAnalysis'' ''analyze_spot_vibe'' = Inl e"
    by (simp add: tool_setup_def ebind_def)
  then show ?thesis by (rule agent2_setup_raises)
qed

text \<open>The second sample run, with the library as it is.\<close>

theorem vibe_scorer_aborts_before_the_loop_witness:
  "types_Schema_from_dict reviewers ''SpotVibeAnalysis'' = Inl AttributeError \<and>
   agent2_analyze_vibe reviewers five_spots [0, 1, 2, 3, 4] ''cozy'' =
     (\<lparr>heap = five_spots, analyzed_spots = [],
       trace = [StWrite [T ''**Agent 2:** Analyzing vibes for '', N 5, T '' spots...'']]\<rparr>,
      Inl AttributeError)"
proof -
  have h: "types_Schema_from_dict reviewers ''SpotVibeAnalysis'' = Inl AttributeError"
    by (simp add: reviewers_def)
  from vibe_scorer_aborts_before_the_loop [OF h, of five_spots "[0, 1, 2, 3, 4]" "''cozy''"] h
  show ?thesis by simp
qed

subsection \<open>The Lisbon run\<close>





section \<open>What the schemas check\<close>









end
